theory Spec2Isabelle
  imports Complex_Main "HOL-Library.Word"
begin

unbundle bit_operations_syntax

text \<open>
  A model of \<^verbatim>\<open>ReviewAnalysisService\<close>
  (\<^verbatim>\<open>django/app/services/review_analysis_service.py\<close>), the cache-aside layer in front
  of the review analysis pipeline: the derivation of the cache key, the read from and the
  write to the cache, the analysis with its fallback, and the clearing of the cache. Line
  numbers are those of the source file.
\<close>

section \<open>Python values\<close>

text \<open>
  The service is Python. A Python \<^verbatim>\<open>str\<close> is a
  sequence of code points (0 to 0x10FFFF), so it is modelled as a list of naturals; a
  \<^verbatim>\<open>bytes\<close> object is a list of 8-bit words. \<open>str\<close> turns an ASCII literal of this
  theory into the Python string with the same characters.
\<close>

type_synonym pystr = "nat list"
type_synonym byte = "8 word"
type_synonym u32 = "32 word"

definition str :: "string \<Rightarrow> pystr" where
  "str s = map of_char s"

text \<open>
  The exceptions the code tells apart. All of them are instances of Python's
  \<^verbatim>\<open>Exception\<close>, which is what the handlers \<^verbatim>\<open>except Exception\<close> of the service
  catch; \<open>JSONDecodeError\<close> is the one the inner handler of \<^verbatim>\<open>_get_from_cache\<close> names.
  \<open>OtherException\<close> carries the name of any other exception class. What is raised
  outside \<^verbatim>\<open>Exception\<close> (a keyboard interrupt, the cancellation of the awaiting
  coroutine) is not modelled.
\<close>

datatype exn = UnicodeEncodeError | JSONDecodeError | OtherException string

text \<open>
  The values that flow through the service: what \<^verbatim>\<open>json.loads\<close> returns, what the
  analysis pipeline returns, and the default response. A dictionary is an association list
  with string keys, in insertion order. \<open>PObject\<close> is an instance of a class that is none
  of the built-in types, given by the name of its class and its attributes (the
  \<^verbatim>\<open>EmptyDataFrame\<close> object of the default response, a pandas table in a real result).
  A finite float is given by its value.
\<close>

datatype pyval =
    PNone
  | PBool bool
  | PInt int
  | PFloat real
  | PStr pystr
  | PList "pyval list"
  | PTuple "pyval list"
  | PDict "(pystr \<times> pyval) list"
  | PObject string "(string \<times> pyval) list"

text \<open>
  Python's truth value, as \<^verbatim>\<open>if cached_result:\<close> and \<^verbatim>\<open>if company_name:\<close> test it:
  \<^verbatim>\<open>None\<close>, \<^verbatim>\<open>False\<close>, zero and the empty string, list, tuple and dictionary are
  false. An object whose class defines neither \<^verbatim>\<open>__bool__\<close> nor \<^verbatim>\<open>__len__\<close> is true.
\<close>

fun truthy :: "pyval \<Rightarrow> bool" where
  "truthy PNone = False"
| "truthy (PBool b) = b"
| "truthy (PInt i) = (i \<noteq> 0)"
| "truthy (PFloat x) = (x \<noteq> 0)"
| "truthy (PStr s) = (s \<noteq> [])"
| "truthy (PList xs) = (xs \<noteq> [])"
| "truthy (PTuple xs) = (xs \<noteq> [])"
| "truthy (PDict kvs) = (kvs \<noteq> [])"
| "truthy (PObject c attrs) = True"

text \<open>\<^verbatim>\<open>isinstance(value, (dict, list))\<close>\<close>

fun isinstance_dict_list :: "pyval \<Rightarrow> bool" where
  "isinstance_dict_list (PDict kvs) = True"
| "isinstance_dict_list (PList xs) = True"
| "isinstance_dict_list v = False"

section \<open>The cache key: \<^verbatim>\<open>str.encode\<close>, \<^verbatim>\<open>hashlib.md5\<close>, \<^verbatim>\<open>hexdigest\<close>\<close>

text \<open>
  \<^verbatim>\<open>company_name.encode()\<close> is UTF-8 with strict error handling: one to four bytes per
  code point, and \<^verbatim>\<open>UnicodeEncodeError\<close> for a surrogate (U+D800 to U+DFFF), which
  UTF-8 does not encode. A number from 0x110000 on is no code point; no Python string
  holds one, and the model answers with the same error.
\<close>

definition unicode_scalar :: "nat \<Rightarrow> bool" where
  "unicode_scalar c = (c < 0xD800 \<or> (0xE000 \<le> c \<and> c < 0x110000))"

definition utf8 :: "nat \<Rightarrow> exn + byte list" where
  "utf8 c =
     (if c < 0x80 then Inr [of_nat c]
      else if c < 0x800 then Inr [of_nat (0xC0 + c div 64), of_nat (0x80 + c mod 64)]
      else if 0xD800 \<le> c \<and> c < 0xE000 then Inl UnicodeEncodeError
      else if c < 0x10000 then
        Inr [of_nat (0xE0 + c div 4096), of_nat (0x80 + c div 64 mod 64), of_nat (0x80 + c mod 64)]
      else if c < 0x110000 then
        Inr [of_nat (0xF0 + c div 262144), of_nat (0x80 + c div 4096 mod 64),
             of_nat (0x80 + c div 64 mod 64), of_nat (0x80 + c mod 64)]
      else Inl UnicodeEncodeError)"

fun encode :: "pystr \<Rightarrow> exn + byte list" where
  "encode [] = Inr []"
| "encode (c # cs) =
     (case utf8 c of
        Inl e \<Rightarrow> Inl e
      | Inr bs \<Rightarrow> (case encode cs of Inl e \<Rightarrow> Inl e | Inr rest \<Rightarrow> Inr (bs @ rest)))"

text \<open>
  MD5 as RFC 1321 defines it: the message is padded with the byte 0x80, zero bytes up to
  56 modulo 64 and its length in bits as 64 bits, low byte first; every 64-byte block is
  read as sixteen 32-bit words, low byte first, and run through 64 rounds; the digest is
  the four state words, low byte first. Sums of 32-bit words wrap around.
\<close>

definition md5_s :: "nat list" where
  "md5_s =
     [7, 12, 17, 22, 7, 12, 17, 22, 7, 12, 17, 22, 7, 12, 17, 22,
      5, 9, 14, 20, 5, 9, 14, 20, 5, 9, 14, 20, 5, 9, 14, 20,
      4, 11, 16, 23, 4, 11, 16, 23, 4, 11, 16, 23, 4, 11, 16, 23,
      6, 10, 15, 21, 6, 10, 15, 21, 6, 10, 15, 21, 6, 10, 15, 21]"

definition md5_K :: "u32 list" where
  "md5_K =
     [0xd76aa478, 0xe8c7b756, 0x242070db, 0xc1bdceee, 0xf57c0faf, 0x4787c62a, 0xa8304613, 0xfd469501,
      0x698098d8, 0x8b44f7af, 0xffff5bb1, 0x895cd7be, 0x6b901122, 0xfd987193, 0xa679438e, 0x49b40821,
      0xf61e2562, 0xc040b340, 0x265e5a51, 0xe9b6c7aa, 0xd62f105d, 0x02441453, 0xd8a1e681, 0xe7d3fbc8,
      0x21e1cde6, 0xc33707d6, 0xf4d50d87, 0x455a14ed, 0xa9e3e905, 0xfcefa3f8, 0x676f02d9, 0x8d2a4c8a,
      0xfffa3942, 0x8771f681, 0x6d9d6122, 0xfde5380c, 0xa4beea44, 0x4bdecfa9, 0xf6bb4b60, 0xbebfbc70,
      0x289b7ec6, 0xeaa127fa, 0xd4ef3085, 0x04881d05, 0xd9d4d039, 0xe6db99e5, 0x1fa27cf8, 0xc4ac5665,
      0xf4292244, 0x432aff97, 0xab9423a7, 0xfc93a039, 0x655b59c3, 0x8f0ccc92, 0xffeff47d, 0x85845dd1,
      0x6fa87e4f, 0xfe2ce6e0, 0xa3014314, 0x4e0811a1, 0xf7537e82, 0xbd3af235, 0x2ad7d2bb, 0xeb86d391]"

definition le_bytes :: "nat \<Rightarrow> 'a::len word \<Rightarrow> byte list" where
  "le_bytes k w = map (\<lambda>i. ucast (drop_bit (8 * i) w)) [0..<k]"

fun le_word :: "byte list \<Rightarrow> u32" where
  "le_word [] = 0"
| "le_word (b # bs) = ucast b OR push_bit 8 (le_word bs)"

function chunks :: "nat \<Rightarrow> 'a list \<Rightarrow> 'a list list" where
  "chunks n xs = (if n = 0 \<or> xs = [] then [] else take n xs # chunks n (drop n xs))"
  by pat_completeness auto
termination
  by (relation "measure (\<lambda>(n, xs). length xs)") auto

definition md5_pad :: "byte list \<Rightarrow> byte list" where
  "md5_pad m =
     m @ [0x80] @ replicate ((119 - length m mod 64) mod 64) 0
       @ le_bytes 8 (of_nat (8 * length m) :: 64 word)"

type_synonym md5_state = "u32 \<times> u32 \<times> u32 \<times> u32"

definition md5_round :: "u32 list \<Rightarrow> nat \<Rightarrow> md5_state \<Rightarrow> md5_state" where
  "md5_round M i = (\<lambda>(a, b, c, d).
     let (f, g) =
       (if i < 16 then ((b AND c) OR (NOT b AND d), i)
        else if i < 32 then ((d AND b) OR (NOT d AND c), (5 * i + 1) mod 16)
        else if i < 48 then (b XOR c XOR d, (3 * i + 5) mod 16)
        else (c XOR (b OR NOT d), (7 * i) mod 16))
     in (d, b + word_rotl (md5_s ! i) (a + f + md5_K ! i + M ! g), b, c))"

definition md5_block :: "md5_state \<Rightarrow> byte list \<Rightarrow> md5_state" where
  "md5_block st blk =
     (let M = map le_word (chunks 4 blk);
          (a, b, c, d) = st;
          (a', b', c', d') = fold (md5_round M) [0..<64] st
      in (a + a', b + b', c + c', d + d'))"

definition md5_digest :: "byte list \<Rightarrow> byte list" where
  "md5_digest m =
     (let (a, b, c, d) =
        fold (\<lambda>blk st. md5_block st blk) (chunks 64 (md5_pad m))
          (0x67452301, 0xefcdab89, 0x98badcfe, 0x10325476)
      in concat (map (le_bytes 4) [a, b, c, d]))"

text \<open>\<^verbatim>\<open>hexdigest()\<close>: two lower-case hexadecimal digits per byte, high digit first.\<close>

definition hex_digit :: "nat \<Rightarrow> char" where
  "hex_digit n = ''0123456789abcdef'' ! (n mod 16)"

definition hexdigest :: "byte list \<Rightarrow> string" where
  "hexdigest bs = concat (map (\<lambda>b. [hex_digit (unat b div 16), hex_digit (unat b mod 16)]) bs)"

text \<open>
  \<^verbatim>\<open>_get_cache_key\<close> (lines 17 to 21):
  \<^verbatim>\<open>company_hash = hashlib.md5(company_name.encode()).hexdigest()\<close>,
  \<^verbatim>\<open>return f"review_analysis:{company_hash}"\<close>. It reads neither \<^verbatim>\<open>self\<close> nor any
  state, so the model is a function of the name alone; the one thing that can raise in it
  is the encoding.
\<close>

definition get_cache_key :: "pystr \<Rightarrow> exn + pystr" where
  "get_cache_key company_name =
     (case encode company_name of
        Inl e \<Rightarrow> Inl e
      | Inr bs \<Rightarrow> Inr (str (''review_analysis:'' @ hexdigest (md5_digest bs))))"

section \<open>The collaborators of the service\<close>

text \<open>
  The service calls code that is not part of the file: the cache adapter
  \<^verbatim>\<open>redis_client\<close>, the record store \<^verbatim>\<open>company_review_model\<close>, the two analysis
  stages, the \<^verbatim>\<open>json\<close> module and one setting. They are parameters of the model, so
  every theorem below holds whatever they do. Each operation of the adapter may return or
  raise, and may change the state \<open>'b\<close> of the backend; the stages of the pipeline and
  the \<^verbatim>\<open>json\<close> functions return or raise as functions of their argument.
  \<open>json_dumps env v a\<close> is \<^verbatim>\<open>json.dumps(v, ensure_ascii=a)\<close>, with no indentation and the
  separators the module uses by default.
\<close>

record 'b collaborators =
  is_connected :: "'b \<Rightarrow> bool"
  redis_not_none :: "'b \<Rightarrow> bool"
  redis_get :: "pystr \<Rightarrow> 'b \<Rightarrow> (exn + pystr option) \<times> 'b"
  redis_setex :: "pystr \<Rightarrow> int \<Rightarrow> pyval \<Rightarrow> 'b \<Rightarrow> (exn + bool) \<times> 'b"
  redis_delete :: "pystr list \<Rightarrow> 'b \<Rightarrow> (exn + int) \<times> 'b"
  redis_keys :: "pystr \<Rightarrow> 'b \<Rightarrow> (exn + pystr list) \<times> 'b"
  get_reviews_by_company :: "pystr \<Rightarrow> exn + pyval"
  preprocess_reviews :: "pyval \<Rightarrow> exn + pyval"
  analyze_reviews_with_keywords :: "pyval \<Rightarrow> exn + pyval"
  json_loads :: "pystr \<Rightarrow> exn + pyval"
  json_dumps :: "pyval \<Rightarrow> bool \<Rightarrow> exn + pystr"
  review_analysis_cache_expire_time :: int

text \<open>
  The state a call runs in: the state of the cache backend, and the calls made to the
  collaborators so far, oldest first. The list of calls is the instrumentation that tells
  whether the pipeline was invoked and what was handed to the cache.
\<close>

datatype stage = Preprocess | Analyze

datatype event =
    RedisGet pystr
  | RedisSetex pystr int pyval
  | RedisDelete "pystr list"
  | RedisKeys pystr
  | GetReviewsByCompany pystr
  | RunInExecutor stage pyval

record 'b world =
  redis :: 'b
  calls :: "event list"

fun is_setex :: "event \<Rightarrow> bool" where
  "is_setex (RedisSetex key ttl v) = True"
| "is_setex ev = False"

text \<open>\<^verbatim>\<open>redis_client.is_connected and redis_client._redis is not None\<close>\<close>

definition redis_ready :: "'b collaborators \<Rightarrow> 'b world \<Rightarrow> bool" where
  "redis_ready env w = (is_connected env (redis w) \<and> redis_not_none env (redis w))"

text \<open>The awaited calls \<^verbatim>\<open>redis_client.get\<close>, \<^verbatim>\<open>setex\<close>, \<^verbatim>\<open>delete\<close> and \<^verbatim>\<open>keys\<close>.\<close>

definition redis_client_get ::
  "'b collaborators \<Rightarrow> pystr \<Rightarrow> 'b world \<Rightarrow> (exn + pystr option) \<times> 'b world" where
  "redis_client_get env key w =
     (case redis_get env key (redis w) of
        (r, b) \<Rightarrow> (r, \<lparr>redis = b, calls = calls w @ [RedisGet key]\<rparr>))"

definition redis_client_setex ::
  "'b collaborators \<Rightarrow> pystr \<Rightarrow> int \<Rightarrow> pyval \<Rightarrow> 'b world \<Rightarrow> (exn + bool) \<times> 'b world" where
  "redis_client_setex env key expire_seconds v w =
     (case redis_setex env key expire_seconds v (redis w) of
        (r, b) \<Rightarrow> (r, \<lparr>redis = b, calls = calls w @ [RedisSetex key expire_seconds v]\<rparr>))"

definition redis_client_delete ::
  "'b collaborators \<Rightarrow> pystr list \<Rightarrow> 'b world \<Rightarrow> (exn + int) \<times> 'b world" where
  "redis_client_delete env keys w =
     (case redis_delete env keys (redis w) of
        (r, b) \<Rightarrow> (r, \<lparr>redis = b, calls = calls w @ [RedisDelete keys]\<rparr>))"

definition redis_client_keys ::
  "'b collaborators \<Rightarrow> pystr \<Rightarrow> 'b world \<Rightarrow> (exn + pystr list) \<times> 'b world" where
  "redis_client_keys env pattern w =
     (case redis_keys env pattern (redis w) of
        (r, b) \<Rightarrow> (r, \<lparr>redis = b, calls = calls w @ [RedisKeys pattern]\<rparr>))"

section \<open>The service\<close>

text \<open>
  Every \<^verbatim>\<open>async def\<close> of the class is run to completion by its awaiting caller, so it
  is a function from the state before to the result and the state after. Output printed
  with \<^verbatim>\<open>print\<close> is not modelled.

  \<^verbatim>\<open>_get_from_cache\<close> (lines 23 to 38). The result of \<^verbatim>\<open>json.loads\<close> is returned as it
  is; on \<^verbatim>\<open>JSONDecodeError\<close> the text itself is returned; any other exception, of the
  adapter or of the parser, ends in the outer handler, which returns \<^verbatim>\<open>None\<close>.
\<close>

definition get_from_cache :: "'b collaborators \<Rightarrow> pystr \<Rightarrow> 'b world \<Rightarrow> pyval \<times> 'b world" where
  "get_from_cache env key w =
     (if redis_ready env w then
        (case redis_client_get env key w of
           (Inl e, w') \<Rightarrow> (PNone, w')
         | (Inr None, w') \<Rightarrow> (PNone, w')
         | (Inr (Some v), w') \<Rightarrow>
             (case json_loads env v of
                Inr parsed \<Rightarrow> (parsed, w')
              | Inl JSONDecodeError \<Rightarrow> (PStr v, w')
              | Inl e \<Rightarrow> (PNone, w')))
      else (PNone, w))"

text \<open>
  \<^verbatim>\<open>_set_to_cache\<close> (lines 40 to 57). \<open>redis_value\<close> is the local variable of that
  name (lines 44 to 47): a dictionary or list is handed to
  \<^verbatim>\<open>json.dumps(value, ensure_ascii=False)\<close>, any other value is passed on as it is. What
  \<^verbatim>\<open>setex\<close> answers is returned; an exception of \<^verbatim>\<open>json.dumps\<close> or of \<^verbatim>\<open>setex\<close>
  ends in the handler, which returns \<^verbatim>\<open>False\<close>.
\<close>

definition redis_value :: "'b collaborators \<Rightarrow> pyval \<Rightarrow> exn + pyval" where
  "redis_value env v =
     (if isinstance_dict_list v then
        (case json_dumps env v False of
           Inl e \<Rightarrow> Inl e
         | Inr text \<Rightarrow> Inr (PStr text))
      else Inr v)"

definition set_to_cache ::
  "'b collaborators \<Rightarrow> pystr \<Rightarrow> pyval \<Rightarrow> int \<Rightarrow> 'b world \<Rightarrow> bool \<times> 'b world" where
  "set_to_cache env key v expire_seconds w =
     (if redis_ready env w then
        (case redis_value env v of
           Inl e \<Rightarrow> (False, w)
         | Inr rv \<Rightarrow>
             (case redis_client_setex env key expire_seconds rv w of
                (Inl e, w') \<Rightarrow> (False, w')
              | (Inr success, w') \<Rightarrow> (success, w')))
      else (False, w))"

text \<open>\<^verbatim>\<open>get_reviews\<close> (lines 59 to 61)\<close>

definition get_reviews :: "'b collaborators \<Rightarrow> pystr \<Rightarrow> 'b world \<Rightarrow> (exn + pyval) \<times> 'b world" where
  "get_reviews env name w =
     (get_reviews_by_company env name, w\<lparr>calls := calls w @ [GetReviewsByCompany name]\<rparr>)"

text \<open>
  \<^verbatim>\<open>await loop.run_in_executor(None, f, x)\<close>: \<open>f x\<close> is computed on a worker thread
  and awaited; what \<open>f\<close> raises is raised by the \<^verbatim>\<open>await\<close>.
\<close>

definition run_in_executor ::
  "'b collaborators \<Rightarrow> stage \<Rightarrow> pyval \<Rightarrow> 'b world \<Rightarrow> (exn + pyval) \<times> 'b world" where
  "run_in_executor env st x w =
     ((case st of
         Preprocess \<Rightarrow> preprocess_reviews env x
       | Analyze \<Rightarrow> analyze_reviews_with_keywords env x),
      w\<lparr>calls := calls w @ [RunInExecutor st x]\<rparr>)"

text \<open>\<^verbatim>\<open>_perform_analysis\<close> (lines 90 to 104); it has no handler of its own.\<close>

definition perform_analysis ::
  "'b collaborators \<Rightarrow> pystr \<Rightarrow> 'b world \<Rightarrow> (exn + pyval) \<times> 'b world" where
  "perform_analysis env name w =
     (case get_reviews env name w of
        (Inl e, w1) \<Rightarrow> (Inl e, w1)
      | (Inr reviews, w1) \<Rightarrow>
          (case run_in_executor env Preprocess reviews w1 of
             (Inl e, w2) \<Rightarrow> (Inl e, w2)
           | (Inr df, w2) \<Rightarrow> run_in_executor env Analyze df w2))"

text \<open>
  \<^verbatim>\<open>_get_default_response\<close> (lines 106 to 120). \<^verbatim>\<open>scored_df\<close> is an instance of a
  class made on the spot, with the attributes \<^verbatim>\<open>shape = (0, 0)\<close> and \<^verbatim>\<open>empty = True\<close>.
\<close>

definition get_default_response :: pyval where
  "get_default_response =
     PDict
       [(str ''scored_df'',
           PObject ''EmptyDataFrame''
             [(''shape'', PTuple [PInt 0, PInt 0]), (''empty'', PBool True)]),
        (str ''pros'',
           PDict [(str ''avg_score'', PFloat 0), (str ''keywords'', PList []),
                  (str ''sample_reviews'', PList [])]),
        (str ''cons'',
           PDict [(str ''avg_score'', PFloat 0), (str ''keywords'', PList []),
                  (str ''sample_reviews'', PList [])])]"

text \<open>
  \<^verbatim>\<open>analysis_review\<close> (lines 63 to 88). The key is derived and the cache is read before
  the \<^verbatim>\<open>try\<close>; the \<^verbatim>\<open>try\<close> holds the pipeline and the write to the cache, and its
  handler returns the default response.
\<close>

definition analysis_review ::
  "'b collaborators \<Rightarrow> pystr \<Rightarrow> 'b world \<Rightarrow> (exn + pyval) \<times> 'b world" where
  "analysis_review env name w =
     (case get_cache_key name of
        Inl e \<Rightarrow> (Inl e, w)
      | Inr cache_key \<Rightarrow>
          (case get_from_cache env cache_key w of
             (cached_result, w1) \<Rightarrow>
               if truthy cached_result then (Inr cached_result, w1)
               else
                 (case perform_analysis env name w1 of
                    (Inl e, w2) \<Rightarrow> (Inr get_default_response, w2)
                  | (Inr analysis_result, w2) \<Rightarrow>
                      (case set_to_cache env cache_key analysis_result
                              (review_analysis_cache_expire_time env) w2 of
                         (stored, w3) \<Rightarrow> (Inr analysis_result, w3)))))"

text \<open>
  \<^verbatim>\<open>clear_analysis_cache\<close> (lines 122 to 152), \<^verbatim>\<open>company_name: Optional[str] = None\<close>.
  \<open>clear_company_cache\<close> is the branch of \<^verbatim>\<open>if company_name:\<close> (lines 126 to 135),
  \<open>clear_all_caches\<close> the \<^verbatim>\<open>else\<close> branch (lines 137 to 148); the handler around both
  returns 0.
\<close>

definition clear_company_cache :: "'b collaborators \<Rightarrow> pystr \<Rightarrow> 'b world \<Rightarrow> int \<times> 'b world" where
  "clear_company_cache env company_name w =
     (case get_cache_key company_name of
        Inl e \<Rightarrow> (0, w)
      | Inr cache_key \<Rightarrow>
          if redis_ready env w then
            (case redis_client_delete env [cache_key] w of
               (Inl e, w') \<Rightarrow> (0, w')
             | (Inr redis_deleted, w') \<Rightarrow> (redis_deleted, w'))
          else (0, w))"

definition clear_all_caches :: "'b collaborators \<Rightarrow> 'b world \<Rightarrow> int \<times> 'b world" where
  "clear_all_caches env w =
     (if redis_ready env w then
        (case redis_client_keys env (str ''review_analysis:*'') w of
           (Inl e, w1) \<Rightarrow> (0, w1)
         | (Inr keys, w1) \<Rightarrow>
             if keys \<noteq> [] then
               (case redis_client_delete env keys w1 of
                  (Inl e, w2) \<Rightarrow> (0, w2)
                | (Inr redis_deleted, w2) \<Rightarrow> (redis_deleted, w2))
             else (0, w1))
      else (0, w))"

definition clear_analysis_cache ::
  "'b collaborators \<Rightarrow> pystr option \<Rightarrow> 'b world \<Rightarrow> int \<times> 'b world" where
  "clear_analysis_cache env company_name w =
     (case company_name of
        None \<Rightarrow> clear_all_caches env w
      | Some name \<Rightarrow>
          if truthy (PStr name) then clear_company_cache env name w
          else clear_all_caches env w)"

section \<open>The shape of a result\<close>

text \<open>
  \<open>dict_get v k\<close> is \<^verbatim>\<open>v[k]\<close> for a dictionary that has the key. An analysis result has
  the sections \<^verbatim>\<open>pros\<close> and \<^verbatim>\<open>cons\<close>, each with a floating-point \<^verbatim>\<open>avg_score\<close>,
  a list \<^verbatim>\<open>keywords\<close> and a list \<^verbatim>\<open>sample_reviews\<close>; the default result has the
  scores 0.0, empty lists and a \<^verbatim>\<open>scored_df\<close> that says it is an empty table.
\<close>

definition dict_get :: "pyval \<Rightarrow> string \<Rightarrow> pyval option" where
  "dict_get v k = (case v of PDict kvs \<Rightarrow> map_of kvs (str k) | _ \<Rightarrow> None)"

definition is_section :: "pyval \<Rightarrow> bool" where
  "is_section v =
     ((case dict_get v ''avg_score'' of Some (PFloat x) \<Rightarrow> True | _ \<Rightarrow> False)
      \<and> (case dict_get v ''keywords'' of Some (PList ks) \<Rightarrow> True | _ \<Rightarrow> False)
      \<and> (case dict_get v ''sample_reviews'' of Some (PList rs) \<Rightarrow> True | _ \<Rightarrow> False))"

definition is_analysis_result :: "pyval \<Rightarrow> bool" where
  "is_analysis_result v =
     ((case dict_get v ''pros'' of Some p \<Rightarrow> is_section p | None \<Rightarrow> False)
      \<and> (case dict_get v ''cons'' of Some c \<Rightarrow> is_section c | None \<Rightarrow> False))"

definition is_empty_section :: "pyval \<Rightarrow> bool" where
  "is_empty_section v =
     (dict_get v ''avg_score'' = Some (PFloat 0)
      \<and> dict_get v ''keywords'' = Some (PList [])
      \<and> dict_get v ''sample_reviews'' = Some (PList []))"

definition is_default_result :: "pyval \<Rightarrow> bool" where
  "is_default_result v =
     ((case dict_get v ''pros'' of Some p \<Rightarrow> is_empty_section p | None \<Rightarrow> False)
      \<and> (case dict_get v ''cons'' of Some c \<Rightarrow> is_empty_section c | None \<Rightarrow> False)
      \<and> (case dict_get v ''scored_df'' of
            Some (PObject c attrs) \<Rightarrow>
              map_of attrs ''empty'' = Some (PBool True)
              \<and> map_of attrs ''shape'' = Some (PTuple [PInt 0, PInt 0])
          | _ \<Rightarrow> False))"

section \<open>The cache adapter as the specification describes it\<close>

text \<open>
  Modelled from the spec: \<^verbatim>\<open>redis_client\<close> (module \<^verbatim>\<open>database.redis_client\<close>), which
  is not among the sources. Section 4.2 of the specification describes it as a keyed store
  of texts with a time to live: \<^verbatim>\<open>get\<close> returns the stored text or absence,
  \<^verbatim>\<open>setWithTTL\<close> stores a text and reports success, \<^verbatim>\<open>delete\<close> returns the number of
  keys removed, \<^verbatim>\<open>deleteByPattern\<close> enumerates the keys matching a pattern; no operation
  raises, and each is a no-op returning its empty or false value when the adapter is not
  available. The store holds the entries that are alive (key, text, time to live);
  expiry is the backend's business and removes an entry from the list. A pattern is a
  glob: \<^verbatim>\<open>*\<close> (code point 42) stands for any characters, \<^verbatim>\<open>?\<close> (63) for one, any
  other character for itself. A value that is not a text is not stored. \<open>is_review_key\<close>
  says that a key lies in the namespace of the service: it starts with
  \<^verbatim>\<open>review_analysis:\<close>.
\<close>

record store =
  link_up :: bool
  client :: bool
  entries :: "(pystr \<times> pystr \<times> int) list"

definition available :: "store \<Rightarrow> bool" where
  "available s = (link_up s \<and> client s)"

fun glob_match :: "pystr \<Rightarrow> pystr \<Rightarrow> bool" where
  "glob_match [] s = (s = [])"
| "glob_match (p # ps) [] = (p = 42 \<and> glob_match ps [])"
| "glob_match (p # ps) (c # cs) =
     (if p = 42 then glob_match ps (c # cs) \<or> glob_match (p # ps) cs
      else (p = 63 \<or> p = c) \<and> glob_match ps cs)"

definition is_review_key :: "pystr \<Rightarrow> bool" where
  "is_review_key k = (take 16 k = str ''review_analysis:'')"

definition store_get :: "pystr \<Rightarrow> store \<Rightarrow> (exn + pystr option) \<times> store" where
  "store_get key s =
     (Inr (if available s then map_option fst (map_of (entries s) key) else None), s)"

definition store_setex :: "pystr \<Rightarrow> int \<Rightarrow> pyval \<Rightarrow> store \<Rightarrow> (exn + bool) \<times> store" where
  "store_setex key ttl v s =
     (if available s then
        (case v of
           PStr text \<Rightarrow>
             (Inr True, s\<lparr>entries := (key, text, ttl) # filter (\<lambda>e. fst e \<noteq> key) (entries s)\<rparr>)
         | _ \<Rightarrow> (Inr False, s))
      else (Inr False, s))"

definition store_delete :: "pystr list \<Rightarrow> store \<Rightarrow> (exn + int) \<times> store" where
  "store_delete keys s =
     (if available s then
        (Inr (int (length (filter (\<lambda>e. fst e \<in> set keys) (entries s)))),
         s\<lparr>entries := filter (\<lambda>e. fst e \<notin> set keys) (entries s)\<rparr>)
      else (Inr 0, s))"

definition store_keys :: "pystr \<Rightarrow> store \<Rightarrow> (exn + pystr list) \<times> store" where
  "store_keys pattern s =
     (Inr (if available s then filter (glob_match pattern) (map fst (entries s)) else []), s)"

text \<open>\<open>on_store env\<close> is \<open>env\<close> with this adapter in the place of its cache operations.\<close>

definition on_store :: "'a collaborators \<Rightarrow> store collaborators" where
  "on_store env =
     \<lparr>is_connected = link_up,
      redis_not_none = client,
      redis_get = store_get,
      redis_setex = store_setex,
      redis_delete = store_delete,
      redis_keys = store_keys,
      get_reviews_by_company = get_reviews_by_company env,
      preprocess_reviews = preprocess_reviews env,
      analyze_reviews_with_keywords = analyze_reviews_with_keywords env,
      json_loads = json_loads env,
      json_dumps = json_dumps env,
      review_analysis_cache_expire_time = review_analysis_cache_expire_time env\<rparr>"

section \<open>The \<^verbatim>\<open>json\<close> encoder\<close>

text \<open>
  \<^verbatim>\<open>json.dumps(v, ensure_ascii=False)\<close> of the standard library, with every other
  argument at its default: no indentation, the item separator \<^verbatim>\<open>', '\<close> and the key
  separator \<^verbatim>\<open>': '\<close>. It is the encoder of \<^verbatim>\<open>json.encoder\<close>.

  \<open>json_escape\<close> is the table \<^verbatim>\<open>ESCAPE_DCT\<close>, consulted for the characters of the pattern
  \<^verbatim>\<open>ESCAPE\<close>: the quote (34) and the backslash (92) get a backslash in front, the control
  characters below 32 are written as \<^verbatim>\<open>\b\<close>, \<^verbatim>\<open>\f\<close>, \<^verbatim>\<open>\n\<close>, \<^verbatim>\<open>\r\<close>, \<^verbatim>\<open>\t\<close> or
  \<^verbatim>\<open>\u00XX\<close>, and every other character, ASCII or not, is written as it is.
  \<open>int_repr\<close> is the decimal \<^verbatim>\<open>repr\<close> of an \<^verbatim>\<open>int\<close>, \<open>join sep\<close> is \<^verbatim>\<open>sep.join\<close>.
  \<^verbatim>\<open>float.__repr__\<close>, the shortest decimal text that reads back as the same float, is
  the parameter \<open>float_repr\<close>.

  \<open>json_text float_repr v\<close> is the text written for a value of \<^verbatim>\<open>None\<close>, booleans,
  numbers, strings, lists, tuples and dictionaries with string keys: \<^verbatim>\<open>null\<close>,
  \<^verbatim>\<open>true\<close>, \<^verbatim>\<open>false\<close>, the \<^verbatim>\<open>repr\<close> of a number, a string between quotes with its
  characters escaped by \<open>json_escape\<close>, the members of a list or tuple between brackets and
  the items of a dictionary between braces, in their order. A value that holds an object
  of any other class (\<open>holds_object\<close>) makes the encoder raise \<^verbatim>\<open>TypeError\<close>, and no
  text is returned; the clause of \<open>json_text\<close> for such an object is never consulted.
  The limit of the interpreter on the depth of recursion is not modelled.

  A JSON text is \<open>compact\<close> when it has no blank (space, tab, line feed, carriage return)
  outside its string literals, as with the separators \<^verbatim>\<open>(',', ':')\<close>.
  \<open>blanks_outside_strings st text\<close> counts those blanks; the state \<open>st\<close> of the scan is
  0 outside a string literal, 1 inside one, 2 after a backslash inside one.
\<close>

fun holds_object :: "pyval \<Rightarrow> bool" where
  "holds_object (PObject c attrs) = True"
| "holds_object (PList xs) = (\<exists>x \<in> set xs. holds_object x)"
| "holds_object (PTuple xs) = (\<exists>x \<in> set xs. holds_object x)"
| "holds_object (PDict kvs) = (\<exists>kv \<in> set kvs. holds_object (snd kv))"
| "holds_object v = False"

definition json_escape :: "nat \<Rightarrow> pystr" where
  "json_escape c =
     (if c = 34 then [92, 34]
      else if c = 92 then [92, 92]
      else if c = 8 then [92, 98]
      else if c = 12 then [92, 102]
      else if c = 10 then [92, 110]
      else if c = 13 then [92, 114]
      else if c = 9 then [92, 116]
      else if c < 32 then [92, 117, 48, 48] @ str [hex_digit (c div 16), hex_digit (c mod 16)]
      else [c])"

function digits :: "nat \<Rightarrow> pystr" where
  "digits n = (if n < 10 then [48 + n] else digits (n div 10) @ [48 + n mod 10])"
  by pat_completeness auto
termination
  by (relation "measure id") auto

declare digits.simps [simp del]

definition int_repr :: "int \<Rightarrow> pystr" where
  "int_repr i = (if i < 0 then 45 # digits (nat (- i)) else digits (nat i))"

fun join :: "pystr \<Rightarrow> pystr list \<Rightarrow> pystr" where
  "join sep [] = []"
| "join sep [x] = x"
| "join sep (x # y # ys) = x @ sep @ join sep (y # ys)"

fun json_text :: "(real \<Rightarrow> pystr) \<Rightarrow> pyval \<Rightarrow> pystr" where
  "json_text float_repr PNone = str ''null''"
| "json_text float_repr (PBool b) = (if b then str ''true'' else str ''false'')"
| "json_text float_repr (PInt i) = int_repr i"
| "json_text float_repr (PFloat x) = float_repr x"
| "json_text float_repr (PStr s) = [34] @ concat (map json_escape s) @ [34]"
| "json_text float_repr (PList xs) = [91] @ join (str '', '') (map (json_text float_repr) xs) @ [93]"
| "json_text float_repr (PTuple xs) = [91] @ join (str '', '') (map (json_text float_repr) xs) @ [93]"
| "json_text float_repr (PDict kvs) =
     [123]
       @ join (str '', '')
           (map (\<lambda>kv. json_text float_repr (PStr (fst kv)) @ str '': '' @ json_text float_repr (snd kv)) kvs)
       @ [125]"
| "json_text float_repr (PObject c attrs) = []"

definition json_dumps_unescaped :: "(real \<Rightarrow> pystr) \<Rightarrow> pyval \<Rightarrow> exn + pystr" where
  "json_dumps_unescaped float_repr v =
     (if holds_object v then Inl (OtherException ''TypeError'') else Inr (json_text float_repr v))"

fun blanks_outside_strings :: "nat \<Rightarrow> pystr \<Rightarrow> nat" where
  "blanks_outside_strings st [] = 0"
| "blanks_outside_strings st (c # cs) =
     (if st = 0 then
        (if c \<in> {32, 9, 10, 13} then 1 else 0) + blanks_outside_strings (if c = 34 then 1 else 0) cs
      else if st = 1 then blanks_outside_strings (if c = 92 then 2 else if c = 34 then 0 else 1) cs
      else blanks_outside_strings 1 cs)"

definition compact :: "pystr \<Rightarrow> bool" where
  "compact text = (blanks_outside_strings 0 text = 0)"

section \<open>Example data\<close>

text \<open>
  The company names, results and cache states the examples below run on. \<open>samsung\<close> is a
  Korean company name of four Hangul syllables, \<open>lone_surrogate\<close> the Python string
  \<^verbatim>\<open>'\ud800'\<close>. \<open>example_result\<close> is a result of plain values, \<open>example_text\<close> the text
  \<^verbatim>\<open>json.dumps(example_result, ensure_ascii=False)\<close>, with the Korean keyword of two
  syllables left as it is; \<open>table_result\<close> is a result that carries a pandas table, as
  the default response does.

  \<open>example_loads\<close> and \<open>example_dumps\<close> are \<^verbatim>\<open>json.loads\<close> and \<^verbatim>\<open>json.dumps\<close> as far
  as the examples need them. A text whose first character after blanks cannot begin a JSON
  value (\<open>starts_value\<close>) raises \<^verbatim>\<open>JSONDecodeError\<close>, as \<^verbatim>\<open>hello\<close> does; the
  texts of the examples, \<open>example_text\<close>, \<^verbatim>\<open>{}\<close> and \<^verbatim>\<open>[1, 2]\<close>, are read as the values
  they denote. A value that holds an object of
  a class unknown to the module (\<open>holds_object\<close>) raises \<^verbatim>\<open>TypeError\<close>; the two values
  of the examples are written as their texts. On every other argument the two functions
  raise \<^verbatim>\<open>NotImplementedError\<close>: there the module is not modelled, and no example
  consults them there.

  \<open>acme_key\<close> and \<open>empty_name_key\<close> are the keys of the names \<^verbatim>\<open>Acme\<close> and
  \<^verbatim>\<open>''\<close>, \<open>session_key\<close> is a key of another namespace.
\<close>

definition acme :: pystr where
  "acme = str ''Acme''"

definition acme_key :: pystr where
  "acme_key = str ''review_analysis:79d894520f4f94c267986a819e110bec''"

definition samsung :: pystr where
  "samsung = [0xC0BC, 0xC131, 0xC804, 0xC790]"

definition lone_surrogate :: pystr where
  "lone_surrogate = [0xD800]"

definition example_reviews :: pyval where
  "example_reviews =
     PList [PDict [(str ''pros'', PStr (str ''good pay'')), (str ''cons'', PStr (str ''long hours''))]]"

definition example_table :: pyval where
  "example_table = PObject ''DataFrame'' []"

definition example_result :: pyval where
  "example_result =
     PDict
       [(str ''pros'',
           PDict [(str ''avg_score'', PFloat 0.5), (str ''keywords'', PList [PStr [0xC5F0, 0xBD09]]),
                  (str ''sample_reviews'', PList [PStr (str ''good pay'')])]),
        (str ''cons'',
           PDict [(str ''avg_score'', PFloat (- 0.25)), (str ''keywords'', PList []),
                  (str ''sample_reviews'', PList [])])]"

definition example_text :: pystr where
  \<open>example_text =
     str ''{"pros": {"avg_score": 0.5, "keywords": ["'' @ [0xC5F0, 0xBD09]
       @ str ''"], "sample_reviews": ["good pay"]}, "cons": {"avg_score": -0.25, "keywords": [], "sample_reviews": []}}''\<close>

definition table_result :: pyval where
  "table_result =
     PDict
       [(str ''scored_df'', PObject ''DataFrame'' []),
        (str ''pros'',
           PDict [(str ''avg_score'', PFloat 0.5), (str ''keywords'', PList [PStr [0xC5F0, 0xBD09]]),
                  (str ''sample_reviews'', PList [PStr (str ''good pay'')])]),
        (str ''cons'',
           PDict [(str ''avg_score'', PFloat (- 0.25)), (str ''keywords'', PList []),
                  (str ''sample_reviews'', PList [])])]"

definition starts_value :: "pystr \<Rightarrow> bool" where
  \<open>starts_value text =
     (case dropWhile (\<lambda>c. c \<in> {32, 9, 10, 13}) text of
        [] \<Rightarrow> False
      | c # cs \<Rightarrow> c \<in> set (str ''{["-0123456789tfnNI''))\<close>

definition example_loads :: "pystr \<Rightarrow> exn + pyval" where
  "example_loads text =
     (if \<not> starts_value text then Inl JSONDecodeError
      else if text = example_text then Inr example_result
      else if text = str ''{}'' then Inr (PDict [])
      else if text = str ''[1, 2]'' then Inr (PList [PInt 1, PInt 2])
      else Inl (OtherException ''NotImplementedError''))"

definition example_dumps :: "pyval \<Rightarrow> bool \<Rightarrow> exn + pystr" where
  "example_dumps v ensure_ascii =
     (if holds_object v then Inl (OtherException ''TypeError'')
      else if v = example_result \<and> \<not> ensure_ascii then Inr example_text
      else if v = PDict [] then Inr (str ''{}'')
      else Inl (OtherException ''NotImplementedError''))"

text \<open>
  \<open>example_float_repr\<close> is \<^verbatim>\<open>float.__repr__\<close> on the three floats of the examples,
  0.5, -0.25 and 0.0; no example writes another float, for which it returns no text.
\<close>

definition example_float_repr :: "real \<Rightarrow> pystr" where
  "example_float_repr x =
     (if x = 0.5 then str ''0.5''
      else if x = - 0.25 then str ''-0.25''
      else if x = 0 then str ''0.0''
      else [])"

text \<open>
  \<open>example_env fetch result\<close>: the adapter of the specification, a record store that
  answers \<open>fetch\<close>, a preprocessing stage that returns a table, an analysis stage that
  returns \<open>result\<close>, and a time to live of one hour.
\<close>

definition example_env :: "(pystr \<Rightarrow> exn + pyval) \<Rightarrow> pyval \<Rightarrow> store collaborators" where
  "example_env fetch result =
     \<lparr>is_connected = link_up,
      redis_not_none = client,
      redis_get = store_get,
      redis_setex = store_setex,
      redis_delete = store_delete,
      redis_keys = store_keys,
      get_reviews_by_company = fetch,
      preprocess_reviews = (\<lambda>reviews. Inr example_table),
      analyze_reviews_with_keywords = (\<lambda>df. Inr result),
      json_loads = example_loads,
      json_dumps = example_dumps,
      review_analysis_cache_expire_time = 3600\<rparr>"

definition fetch_ok :: "pystr \<Rightarrow> exn + pyval" where
  "fetch_ok name = Inr example_reviews"

definition fetch_fails :: "pystr \<Rightarrow> exn + pyval" where
  "fetch_fails name = Inl (OtherException ''ServerSelectionTimeoutError'')"

definition world_with :: "bool \<Rightarrow> (pystr \<times> pystr \<times> int) list \<Rightarrow> store world" where
  "world_with up es = \<lparr>redis = \<lparr>link_up = up, client = True, entries = es\<rparr>, calls = []\<rparr>"

definition empty_name_key :: pystr where
  "empty_name_key = str ''review_analysis:d41d8cd98f00b204e9800998ecf8427e''"

definition session_key :: pystr where
  "session_key = str ''session:42''"

text \<open>
  The states of the examples: \<open>world_with up es\<close> has the entries \<open>es\<close>, a client that
  is connected or not, and no calls yet; \<open>read_world\<close> and \<open>pipeline_world\<close> are the
  states of a first analysis of Acme on an empty store after the cache read and after the
  pipeline, \<open>cached_world\<close> the state after the write of \<open>example_text\<close>.
\<close>

definition cached_world :: "store world" where
  "cached_world =
     \<lparr>redis = \<lparr>link_up = True, client = True, entries = [(acme_key, example_text, 3600)]\<rparr>,
      calls =
        [RedisGet acme_key, GetReviewsByCompany acme, RunInExecutor Preprocess example_reviews,
         RunInExecutor Analyze example_table, RedisSetex acme_key 3600 (PStr example_text)]\<rparr>"

definition read_world :: "store world" where
  "read_world =
     \<lparr>redis = \<lparr>link_up = True, client = True, entries = []\<rparr>, calls = [RedisGet acme_key]\<rparr>"

definition pipeline_world :: "store world" where
  "pipeline_world =
     \<lparr>redis = \<lparr>link_up = True, client = True, entries = []\<rparr>,
      calls =
        [RedisGet acme_key, GetReviewsByCompany acme, RunInExecutor Preprocess example_reviews,
         RunInExecutor Analyze example_table]\<rparr>"

definition three_entries :: "(pystr \<times> pystr \<times> int) list" where
  "three_entries =
     [(acme_key, example_text, 3600), (empty_name_key, str ''{}'', 3600),
      (session_key, str ''hello'', 60)]"

section \<open>Facts about the cache key\<close>

lemma utf8_scalar: "unicode_scalar c \<Longrightarrow> \<exists>bs. utf8 c = Inr bs"
  by (auto simp: unicode_scalar_def utf8_def)

lemma encode_scalars: "list_all unicode_scalar s \<Longrightarrow> \<exists>bs. encode s = Inr bs"
proof (induction s)
  case Nil
  show ?case by simp
next
  case (Cons c cs)
  from Cons.prems obtain b where b: "utf8 c = Inr b"
    using utf8_scalar by auto
  from Cons obtain rest where "encode cs = Inr rest"
    by auto
  with b show ?case by simp
qed

lemma length_le_bytes: "length (le_bytes k w) = k"
  by (simp add: le_bytes_def)

lemma length_md5_digest: "length (md5_digest m) = 16"
proof -
  obtain a b c d where
    "fold (\<lambda>blk st. md5_block st blk) (chunks 64 (md5_pad m))
       (0x67452301, 0xefcdab89, 0x98badcfe, 0x10325476) = (a, b, c, d)"
    using prod_cases4 by blast
  then show ?thesis
    by (simp add: md5_digest_def length_le_bytes)
qed

lemma length_hexdigest: "length (hexdigest bs) = 2 * length bs"
  by (induction bs) (simp_all add: hexdigest_def)

lemma hex_digit_range: "hex_digit n \<in> set ''0123456789abcdef''"
proof -
  have "n mod 16 < length ''0123456789abcdef''"
    by simp
  then show ?thesis
    unfolding hex_digit_def by (rule nth_mem)
qed

lemma set_hexdigest: "set (hexdigest bs) \<subseteq> set ''0123456789abcdef''"
proof (induction bs)
  case Nil
  show ?case by (simp add: hexdigest_def)
next
  case (Cons b bs)
  have "hexdigest (b # bs) = hex_digit (unat b div 16) # hex_digit (unat b mod 16) # hexdigest bs"
    by (simp add: hexdigest_def)
  with Cons hex_digit_range [of "unat b div 16"] hex_digit_range [of "unat b mod 16"]
  show ?case by simp
qed

section \<open>The examples, evaluated\<close>

lemma get_cache_key_acme: "get_cache_key acme = Inr acme_key"
  unfolding acme_def acme_key_def by code_simp

lemma get_cache_key_empty_name: "get_cache_key [] = Inr empty_name_key"
  unfolding empty_name_key_def by code_simp

lemma encode_samsung:
  "encode samsung = Inr [236, 130, 188, 236, 132, 177, 236, 160, 132, 236, 158, 144]"
  by (simp add: samsung_def utf8_def)

lemma md5_samsung:
  "hexdigest (md5_digest [236, 130, 188, 236, 132, 177, 236, 160, 132, 236, 158, 144])
     = ''18fe769db5a0256ac984c0c1edf9483a''"
  by code_simp

lemma samsung_scalars: "list_all unicode_scalar samsung"
  by (simp add: samsung_def unicode_scalar_def)

lemma example_texts_differ:
  "example_text \<noteq> str ''{}''" "str ''hello'' \<noteq> example_text" "str ''hello'' \<noteq> str ''{}''"
  "str ''hello'' \<noteq> []"
  by (simp_all add: example_text_def str_def)

lemma example_results_differ:
  "example_result \<noteq> PDict []" "table_result \<noteq> PDict []" "table_result \<noteq> example_result"
  by (simp_all add: example_result_def table_result_def str_def)

lemma example_keys_differ:
  "acme_key \<noteq> empty_name_key" "acme_key \<noteq> session_key" "empty_name_key \<noteq> session_key"
  "empty_name_key \<noteq> acme_key" "session_key \<noteq> acme_key" "session_key \<noteq> empty_name_key"
  by (simp_all add: acme_key_def empty_name_key_def session_key_def str_def)

lemma example_review_keys:
  "is_review_key acme_key" "is_review_key empty_name_key" "\<not> is_review_key session_key"
  by (simp_all add: is_review_key_def acme_key_def empty_name_key_def session_key_def str_def)

lemma example_result_kinds:
  "isinstance_dict_list example_result" "isinstance_dict_list table_result"
  "truthy example_result" "truthy table_result" "acme \<noteq> []"
  by (simp_all add: example_result_def table_result_def acme_def str_def)

lemma example_result_shape: "is_analysis_result example_result"
  by (simp add: is_analysis_result_def is_section_def dict_get_def example_result_def str_def)

lemma example_json:
  "example_loads example_text = Inr example_result"
  "example_loads (str ''{}'') = Inr (PDict [])"
  "example_loads (str ''hello'') = Inl JSONDecodeError"
  "example_dumps example_result False = Inr example_text"
  "example_dumps table_result False = Inl (OtherException ''TypeError'')"
proof -
  have "starts_value example_text" "starts_value (str ''{}'')" "\<not> starts_value (str ''hello'')"
    by (simp_all add: starts_value_def str_def example_text_def)
  then show "example_loads example_text = Inr example_result"
    "example_loads (str ''{}'') = Inr (PDict [])"
    "example_loads (str ''hello'') = Inl JSONDecodeError"
    by (simp_all add: example_loads_def example_texts_differ [symmetric])
  have "\<not> holds_object example_result" "holds_object table_result"
    by (simp_all add: example_result_def table_result_def)
  then show "example_dumps example_result False = Inr example_text"
    "example_dumps table_result False = Inl (OtherException ''TypeError'')"
    by (simp_all add: example_dumps_def)
qed

lemma example_list_json: "example_loads (str ''[1, 2]'') = Inr (PList [PInt 1, PInt 2])"
  by (simp add: example_loads_def starts_value_def example_text_def str_def)

lemmas service_defs =
  analysis_review_def get_from_cache_def set_to_cache_def redis_value_def perform_analysis_def
  get_reviews_def run_in_executor_def clear_analysis_cache_def clear_company_cache_def
  clear_all_caches_def redis_ready_def redis_client_get_def redis_client_setex_def
  redis_client_delete_def redis_client_keys_def

lemmas example_defs =
  example_env_def world_with_def fetch_ok_def fetch_fails_def example_json
  store_get_def store_setex_def store_delete_def store_keys_def available_def
  example_texts_differ example_results_differ example_keys_differ example_result_kinds
  get_cache_key_acme get_cache_key_empty_name

section \<open>Facts about the \<^verbatim>\<open>json\<close> encoder\<close>

lemma json_text_example: "json_text example_float_repr example_result = example_text"
  by (simp add: example_result_def example_text_def example_float_repr_def str_def json_escape_def)

lemma json_text_list:
  "json_text r (PList []) = str ''[]''"
  "json_text r (PList [x]) = [91] @ json_text r x @ [93]"
  "json_text r (PList (x # y # ys))
     = [91] @ json_text r x @ str '', '' @ tl (json_text r (PList (y # ys)))"
  by (simp_all add: str_def)

lemma json_text_tuple: "json_text r (PTuple xs) = json_text r (PList xs)"
  by simp

lemma json_text_dict:
  "json_text r (PDict []) = str ''{}''"
  "json_text r (PDict [(k, x)]) = [123] @ json_text r (PStr k) @ str '': '' @ json_text r x @ [125]"
  "json_text r (PDict ((k, x) # kv # kvs))
     = [123] @ json_text r (PStr k) @ str '': '' @ json_text r x @ str '', ''
         @ tl (json_text r (PDict (kv # kvs)))"
  by (simp_all add: str_def)

lemma json_escape_plain: "32 \<le> c \<Longrightarrow> c \<noteq> 34 \<Longrightarrow> c \<noteq> 92 \<Longrightarrow> json_escape c = [c]"
  by (simp add: json_escape_def)

lemma json_text_plain_string:
  "list_all (\<lambda>c. 32 \<le> c \<and> c \<noteq> 34 \<and> c \<noteq> 92) s \<Longrightarrow> json_text r (PStr s) = [34] @ s @ [34]"
  by (induction s) (simp_all add: json_escape_plain)

lemma set_to_cache_sends:
  assumes "redis_ready env w" and "redis_value env v = Inr rv"
  shows "set_to_cache env key v ttl w
           = (case redis_setex env key ttl rv (redis w) of
                (answer, b) \<Rightarrow>
                  ((case answer of Inl e \<Rightarrow> False | Inr success \<Rightarrow> success),
                   \<lparr>redis = b, calls = calls w @ [RedisSetex key ttl rv]\<rparr>))"
  using assms by (simp add: set_to_cache_def redis_client_setex_def split: sum.splits prod.splits)

section \<open>The cache key\<close>

text \<open>
  Claim C4. For every identifier string (including non-ASCII), \<^verbatim>\<open>_get_cache_key\<close> is
  deterministic and pure, the key has the form \<^verbatim>\<open>review_analysis:\<close> followed by 32
  hexadecimal characters, the digest of the encoded identifier, and it never raises.

  The key is a function of the identifier alone, and has that form whenever the identifier
  can be encoded. It cannot always: the Python string \<^verbatim>\<open>'\ud800'\<close>, a lone surrogate,
  is an identifier string on which \<^verbatim>\<open>company_name.encode()\<close> raises
  \<^verbatim>\<open>UnicodeEncodeError\<close>, and \<^verbatim>\<open>_get_cache_key\<close> has no handler.
\<close>

theorem get_cache_key_lone_surrogate:
  "get_cache_key lone_surrogate = Inl UnicodeEncodeError"
  by (simp add: get_cache_key_def lone_surrogate_def utf8_def)

text \<open>
  Claim C4, amended. For every identifier string made of Unicode scalar values (any code
  point but the surrogates U+D800 to U+DFFF; this holds every printable and every
  non-ASCII text), \<^verbatim>\<open>_get_cache_key\<close> returns, and returns \<^verbatim>\<open>review_analysis:\<close>
  followed by the 32 lower-case hexadecimal digits of the MD5 digest of the identifier's
  UTF-8 encoding; being a function of the identifier alone, it returns the same key at
  every call.
\<close>

theorem get_cache_key_format:
  assumes "list_all unicode_scalar company_name"
  shows "\<exists>bs. encode company_name = Inr bs
    \<and> get_cache_key company_name = Inr (str ''review_analysis:'' @ str (hexdigest (md5_digest bs)))
    \<and> length (hexdigest (md5_digest bs)) = 32
    \<and> set (hexdigest (md5_digest bs)) \<subseteq> set ''0123456789abcdef''"
proof -
  from assms obtain bs where bs: "encode company_name = Inr bs"
    using encode_scalars by blast
  have "get_cache_key company_name = Inr (str ''review_analysis:'' @ str (hexdigest (md5_digest bs)))"
    by (simp add: get_cache_key_def bs str_def)
  moreover have "length (hexdigest (md5_digest bs)) = 32"
    by (simp add: length_hexdigest length_md5_digest)
  ultimately show ?thesis
    using bs set_hexdigest by blast
qed

theorem get_cache_key_format_witness:
  "list_all unicode_scalar samsung
   \<and> get_cache_key samsung
       = Inr (str ''review_analysis:'' @ str ''18fe769db5a0256ac984c0c1edf9483a'')
   \<and> length ''18fe769db5a0256ac984c0c1edf9483a'' = 32"
  using get_cache_key_format [OF samsung_scalars]
  by (simp add: encode_samsung md5_samsung samsung_scalars del: set_simps)

section \<open>Facts about the service\<close>

lemma get_from_cache_not_ready:
  "\<not> redis_ready env w \<Longrightarrow> get_from_cache env key w = (PNone, w)"
  by (simp add: get_from_cache_def)

lemma set_to_cache_not_ready:
  "\<not> redis_ready env w \<Longrightarrow> set_to_cache env key v ttl w = (False, w)"
  by (simp add: set_to_cache_def)

lemma clear_analysis_cache_not_ready:
  "\<not> redis_ready env w \<Longrightarrow> clear_analysis_cache env company_name w = (0, w)"
  by (simp add: clear_analysis_cache_def clear_all_caches_def clear_company_cache_def
      split: option.splits sum.splits)

lemma redis_ready_redis: "redis w' = redis w \<Longrightarrow> redis_ready env w' = redis_ready env w"
  by (simp add: redis_ready_def)

lemma get_from_cache_world:
  "snd (get_from_cache env key w) = w
   \<or> snd (get_from_cache env key w)
        = \<lparr>redis = snd (redis_get env key (redis w)), calls = calls w @ [RedisGet key]\<rparr>"
  by (simp add: get_from_cache_def redis_client_get_def
      split: prod.splits sum.splits option.splits exn.splits)

lemma get_from_cache_setex:
  "filter is_setex (calls (snd (get_from_cache env key w))) = filter is_setex (calls w)"
  using get_from_cache_world [of env key w] by auto

lemma perform_analysis_redis: "redis (snd (perform_analysis env name w)) = redis w"
  by (simp add: perform_analysis_def get_reviews_def run_in_executor_def
      split: prod.splits sum.splits stage.splits)

lemma perform_analysis_setex:
  "filter is_setex (calls (snd (perform_analysis env name w))) = filter is_setex (calls w)"
  by (simp add: perform_analysis_def get_reviews_def run_in_executor_def
      split: prod.splits sum.splits stage.splits)

lemma perform_analysis_result:
  "fst (perform_analysis env name w) = fst (perform_analysis env name w')"
  by (simp add: perform_analysis_def get_reviews_def run_in_executor_def
      split: prod.splits sum.splits)

lemma perform_analysis_calls:
  "calls (snd (perform_analysis env name w))
     = calls w @ GetReviewsByCompany name #
        (case get_reviews_by_company env name of
           Inl e \<Rightarrow> []
         | Inr reviews \<Rightarrow>
             RunInExecutor Preprocess reviews #
               (case preprocess_reviews env reviews of
                  Inl e \<Rightarrow> []
                | Inr df \<Rightarrow> [RunInExecutor Analyze df]))"
  by (simp add: perform_analysis_def get_reviews_def run_in_executor_def
      split: prod.splits sum.splits)

lemma perform_analysis_fails:
  assumes "get_reviews_by_company env name = Inl e
     \<or> (\<exists>reviews. get_reviews_by_company env name = Inr reviews
          \<and> (preprocess_reviews env reviews = Inl e
             \<or> (\<exists>df. preprocess_reviews env reviews = Inr df
                  \<and> analyze_reviews_with_keywords env df = Inl e)))"
  shows "fst (perform_analysis env name w) = Inl e"
  using assms
  by (auto simp: perform_analysis_def get_reviews_def run_in_executor_def)

lemma set_to_cache_stored:
  "fst (set_to_cache env key v ttl w)
    = (redis_ready env w
       \<and> (\<exists>rv. redis_value env v = Inr rv
             \<and> fst (redis_setex env key ttl rv (redis w)) = Inr True))"
  by (auto simp: set_to_cache_def redis_client_setex_def split: sum.splits prod.splits)

lemma set_to_cache_dumps_fails:
  "isinstance_dict_list v \<Longrightarrow> json_dumps env v False = Inl e
     \<Longrightarrow> set_to_cache env key v ttl w = (False, w)"
  by (simp add: set_to_cache_def redis_value_def)

lemma default_is_default: "is_default_result get_default_response"
  by (simp add: is_default_result_def get_default_response_def dict_get_def is_empty_section_def
      str_def)

lemma default_is_result: "is_analysis_result get_default_response"
  by (simp add: is_analysis_result_def get_default_response_def dict_get_def is_section_def
      str_def)

section \<open>Facts about the adapter of the specification\<close>

lemma on_store_simps:
  "is_connected (on_store env) = link_up"
  "redis_not_none (on_store env) = client"
  "redis_get (on_store env) = store_get"
  "redis_setex (on_store env) = store_setex"
  "redis_delete (on_store env) = store_delete"
  "redis_keys (on_store env) = store_keys"
  "get_reviews_by_company (on_store env) = get_reviews_by_company env"
  "preprocess_reviews (on_store env) = preprocess_reviews env"
  "analyze_reviews_with_keywords (on_store env) = analyze_reviews_with_keywords env"
  "json_loads (on_store env) = json_loads env"
  "json_dumps (on_store env) = json_dumps env"
  "review_analysis_cache_expire_time (on_store env) = review_analysis_cache_expire_time env"
  by (simp_all add: on_store_def)

lemma on_store_example: "on_store (example_env fetch result) = example_env fetch result"
  by (simp add: on_store_def example_env_def)

lemma store_ready: "redis_ready (on_store env) u = available (redis u)"
  by (simp add: redis_ready_def on_store_simps available_def)

lemma store_read_redis: "redis (snd (get_from_cache (on_store env) key u)) = redis u"
  by (simp add: get_from_cache_def redis_client_get_def on_store_simps store_get_def
      split: prod.splits sum.splits option.splits exn.splits)

lemma store_read_value:
  "redis u' = redis u
     \<Longrightarrow> fst (get_from_cache (on_store env) key u') = fst (get_from_cache (on_store env) key u)"
  by (simp add: get_from_cache_def redis_client_get_def on_store_simps store_get_def redis_ready_def
      split: prod.splits sum.splits option.splits exn.splits)

lemma store_read_calls:
  "\<exists>evs. calls (snd (get_from_cache (on_store env) key u)) = calls u @ evs"
  using get_from_cache_world [of "on_store env" key u] by auto

lemma glob_star: "glob_match [42] s"
  by (induction s) simp_all

lemma glob_literal:
  "p \<noteq> 42 \<Longrightarrow> p \<noteq> 63 \<Longrightarrow> glob_match (p # ps) s = (\<exists>t. s = p # t \<and> glob_match ps t)"
  by (cases s) auto

lemma glob_prefix:
  "42 \<notin> set lit \<Longrightarrow> 63 \<notin> set lit \<Longrightarrow> glob_match (lit @ [42]) s = (\<exists>t. s = lit @ t)"
proof (induction lit arbitrary: s)
  case Nil
  show ?case by (simp add: glob_star)
next
  case (Cons p ps)
  then have "glob_match ((p # ps) @ [42]) s = (\<exists>t. s = p # t \<and> glob_match (ps @ [42]) t)"
    using glob_literal [of p "ps @ [42]" s] by simp
  with Cons show ?case by auto
qed

lemma glob_review_pattern: "glob_match (str ''review_analysis:*'') k = is_review_key k"
proof -
  have "str ''review_analysis:*'' = str ''review_analysis:'' @ [42]"
    by (simp add: str_def)
  moreover have "42 \<notin> set (str ''review_analysis:'')" "63 \<notin> set (str ''review_analysis:'')"
    by (simp_all add: str_def)
  ultimately have "glob_match (str ''review_analysis:*'') k = (\<exists>t. k = str ''review_analysis:'' @ t)"
    using glob_prefix by simp
  also have "\<dots> = is_review_key k"
  proof
    assume "\<exists>t. k = str ''review_analysis:'' @ t"
    then show "is_review_key k"
      by (auto simp: is_review_key_def str_def)
  next
    assume "is_review_key k"
    then have "k = str ''review_analysis:'' @ drop 16 k"
      unfolding is_review_key_def by (metis append_take_drop_id)
    then show "\<exists>t. k = str ''review_analysis:'' @ t" ..
  qed
  finally show ?thesis .
qed

lemma filter_listed:
  "filter (\<lambda>e. fst e \<in> set (filter P (map fst es))) es = filter (\<lambda>e. P (fst e)) es"
  by (rule filter_cong) auto

lemma filter_not_listed:
  "filter (\<lambda>e. fst e \<notin> set (filter P (map fst es))) es = filter (\<lambda>e. \<not> P (fst e)) es"
  by (rule filter_cong) auto

lemma count_of_key:
  "distinct (map fst es)
     \<Longrightarrow> length (filter (\<lambda>e. fst e = k) es) = (if k \<in> fst ` set es then 1 else 0)"
proof (induction es)
  case Nil
  show ?case by simp
next
  case (Cons e es)
  show ?case
  proof (cases "fst e = k")
    case True
    with Cons.prems have "k \<notin> fst ` set es"
      by simp
    with Cons True show ?thesis by simp
  next
    case False
    with Cons show ?thesis by auto
  qed
qed

lemma store_delete_listed:
  assumes "available s"
  shows "store_delete (filter P (map fst (entries s))) s
    = (Inr (int (length (filter (\<lambda>e. P (fst e)) (entries s)))),
       s\<lparr>entries := filter (\<lambda>e. \<not> P (fst e)) (entries s)\<rparr>)"
  unfolding store_delete_def filter_listed filter_not_listed using assms by simp

section \<open>The cache hit\<close>

lemma cache_hit:
  assumes "get_cache_key name = Inr key"
    and "redis_ready env w"
    and "redis_get env key (redis w) = (Inr (Some text), b)"
    and "json_loads env text = Inr (PDict kvs)"
    and "kvs \<noteq> []"
  shows "analysis_review env name w
    = (Inr (PDict kvs), \<lparr>redis = b, calls = calls w @ [RedisGet key]\<rparr>)"
  using assms
  by (simp add: analysis_review_def get_from_cache_def redis_client_get_def)

lemma store_miss_then_write:
  assumes key: "get_cache_key name = Inr key"
    and up: "available (redis u)"
    and falsy: "\<not> truthy (fst (get_from_cache (on_store env) key u))"
    and run: "fst (perform_analysis (on_store env) name u) = Inr result"
    and dl: "isinstance_dict_list result"
    and dumps: "json_dumps env result False = Inr text"
  shows "\<exists>u1. analysis_review (on_store env) name u = (Inr result, u1)
           \<and> available (redis u1)
           \<and> store_get key (redis u1) = (Inr (Some text), redis u1)"
proof -
  let ?ttl = "review_analysis_cache_expire_time env"
  let ?u0 = "\<lparr>redis = redis u, calls = calls u @ [RedisGet key]\<rparr>"
  have ready: "redis_ready (on_store env) u"
    using up by (simp add: store_ready)
  define cached where "cached = fst (get_from_cache (on_store env) key u)"
  have "snd (get_from_cache (on_store env) key u) = ?u0"
    using ready
    by (simp add: get_from_cache_def redis_client_get_def on_store_simps store_get_def
        split: option.splits sum.splits exn.splits)
  then have read: "get_from_cache (on_store env) key u = (cached, ?u0)"
    by (simp add: cached_def prod_eq_iff)
  have falsy': "\<not> truthy cached"
    using falsy by (simp add: cached_def)
  obtain r u2 where run': "perform_analysis (on_store env) name ?u0 = (r, u2)"
    by (cases "perform_analysis (on_store env) name ?u0")
  have r: "r = Inr result"
    using perform_analysis_result [of "on_store env" name ?u0 u] run run' by simp
  have u2: "redis u2 = redis u"
    using perform_analysis_redis [of "on_store env" name ?u0] run' by simp
  let ?s = "(redis u)\<lparr>entries := (key, text, ?ttl) # filter (\<lambda>entry. fst entry \<noteq> key) (entries (redis u))\<rparr>"
  let ?u1 = "\<lparr>redis = ?s, calls = calls u2 @ [RedisSetex key ?ttl (PStr text)]\<rparr>"
  have stored: "set_to_cache (on_store env) key result ?ttl u2 = (True, ?u1)"
    using up u2 dl dumps
    by (simp add: set_to_cache_def redis_value_def store_ready redis_client_setex_def
        on_store_simps store_setex_def)
  have "analysis_review (on_store env) name u = (Inr result, ?u1)"
    by (simp add: analysis_review_def key read falsy' run' r stored on_store_simps)
  moreover have "available (redis ?u1)"
    using up by (simp add: available_def)
  moreover have "store_get key (redis ?u1) = (Inr (Some text), redis ?u1)"
    using up by (simp add: store_get_def available_def)
  ultimately show ?thesis
    by blast
qed

text \<open>
  Claim C1. For every identifier, if a prior successful analysis wrote a cache entry and the
  cache read returns that value, deserializing to a non-empty mapping, then
  \<^verbatim>\<open>analysis_review\<close> returns the deserialized value at once, and neither
  \<^verbatim>\<open>get_reviews\<close> nor the transform stages are invoked on that call.

  First, whatever the collaborators do: when the key is derived, the adapter is ready, its
  \<^verbatim>\<open>get\<close> returns a text and \<^verbatim>\<open>json.loads\<close> makes a non-empty dictionary of it, the
  call returns that dictionary, and the one call it makes to a collaborator is that
  \<^verbatim>\<open>get\<close>. Second, with the prior call, on the adapter of the specification: when a
  call misses, the pipeline gives a dictionary or list, \<^verbatim>\<open>json.dumps\<close> makes a text of
  it and \<^verbatim>\<open>json.loads\<close> a non-empty dictionary of that text, then the call returns the
  result, and a second call in the state it leaves returns the dictionary read back and
  makes no call but the \<^verbatim>\<open>get\<close>.
\<close>

theorem analysis_review_cache_hit:
  "(get_cache_key name = Inr key \<and> redis_ready env w
      \<and> redis_get env key (redis w) = (Inr (Some text), b)
      \<and> json_loads env text = Inr (PDict kvs) \<and> kvs \<noteq> []
    \<longrightarrow> analysis_review env name w
          = (Inr (PDict kvs), \<lparr>redis = b, calls = calls w @ [RedisGet key]\<rparr>))
   \<and> (get_cache_key name = Inr key \<and> available (redis u)
      \<and> \<not> truthy (fst (get_from_cache (on_store env) key u))
      \<and> fst (perform_analysis (on_store env) name u) = Inr result
      \<and> isinstance_dict_list result \<and> json_dumps env result False = Inr text
      \<and> json_loads env text = Inr (PDict kvs) \<and> kvs \<noteq> []
    \<longrightarrow> (\<exists>u1. analysis_review (on_store env) name u = (Inr result, u1)
          \<and> analysis_review (on_store env) name u1
              = (Inr (PDict kvs), u1\<lparr>calls := calls u1 @ [RedisGet key]\<rparr>)))"
proof -
  have written_then_hit: "\<exists>u1. analysis_review (on_store env) name u = (Inr result, u1)
          \<and> analysis_review (on_store env) name u1
              = (Inr (PDict kvs), u1\<lparr>calls := calls u1 @ [RedisGet key]\<rparr>)"
    if key: "get_cache_key name = Inr key" and up: "available (redis u)"
      and falsy: "\<not> truthy (fst (get_from_cache (on_store env) key u))"
      and run: "fst (perform_analysis (on_store env) name u) = Inr result"
      and dl: "isinstance_dict_list result" and dumps: "json_dumps env result False = Inr text"
      and loads: "json_loads env text = Inr (PDict kvs)" and full: "kvs \<noteq> []"
  proof -
    from store_miss_then_write [OF key up falsy run dl dumps]
    obtain u1 where first: "analysis_review (on_store env) name u = (Inr result, u1)"
      and up1: "available (redis u1)"
      and get: "store_get key (redis u1) = (Inr (Some text), redis u1)"
      by blast
    have "analysis_review (on_store env) name u1
        = (Inr (PDict kvs), \<lparr>redis = redis u1, calls = calls u1 @ [RedisGet key]\<rparr>)"
      using key up1 get loads full
      by (intro cache_hit) (simp_all add: store_ready on_store_simps)
    with first show ?thesis
      by auto
  qed
  show ?thesis
    using cache_hit [of name key env w _ b kvs] written_then_hit
    by blast
qed

text \<open>
  The example: a first call for Acme on an empty store runs the pipeline and writes the
  entry (\<open>cached_world\<close> is the state it leaves); the second call returns the cached result
  and adds nothing but the read to the calls.
\<close>

lemma first_analysis_of_acme:
  "analysis_review (example_env fetch_ok example_result) acme (world_with True [])
     = (Inr example_result, cached_world)"
  by (simp add: service_defs example_defs cached_world_def)

theorem analysis_review_cache_hit_witness:
  "analysis_review (example_env fetch_ok example_result) acme (world_with True [])
     = (Inr example_result, cached_world)
   \<and> analysis_review (example_env fetch_ok example_result) acme cached_world
     = (Inr example_result, cached_world\<lparr>calls := calls cached_world @ [RedisGet acme_key]\<rparr>)"
proof -
  let ?env = "example_env fetch_ok example_result"
  let ?kvs = "[(str ''pros'',
              PDict [(str ''avg_score'', PFloat 0.5), (str ''keywords'', PList [PStr [0xC5F0, 0xBD09]]),
                     (str ''sample_reviews'', PList [PStr (str ''good pay'')])]),
           (str ''cons'',
              PDict [(str ''avg_score'', PFloat (- 0.25)), (str ''keywords'', PList []),
                     (str ''sample_reviews'', PList [])])]"
  have result: "example_result = PDict ?kvs"
    by (simp add: example_result_def)
  have ready: "redis_ready ?env cached_world"
    by (simp add: redis_ready_def example_env_def cached_world_def)
  have get: "redis_get ?env acme_key (redis cached_world) = (Inr (Some example_text), redis cached_world)"
    by (simp add: example_defs cached_world_def)
  have loads: "json_loads ?env example_text = Inr (PDict ?kvs)"
    by (simp add: example_env_def example_json example_result_def)
  have up: "available (redis (world_with True []))"
    by (simp add: available_def world_with_def)
  have falsy: "\<not> truthy (fst (get_from_cache (on_store ?env) acme_key (world_with True [])))"
    unfolding on_store_example by (simp add: service_defs example_defs)
  have run: "fst (perform_analysis (on_store ?env) acme (world_with True [])) = Inr example_result"
    unfolding on_store_example by (simp add: service_defs example_defs)
  have dumps: "json_dumps ?env example_result False = Inr example_text"
    by (simp add: example_env_def example_json)
  note hit = analysis_review_cache_hit
    [of acme acme_key ?env cached_world example_text "redis cached_world" ?kvs
        "world_with True []" example_result]
  from hit get_cache_key_acme ready get loads
  have second: "analysis_review ?env acme cached_world
      = (Inr (PDict ?kvs), \<lparr>redis = redis cached_world, calls = calls cached_world @ [RedisGet acme_key]\<rparr>)"
    by simp
  from hit get_cache_key_acme up falsy run example_result_kinds(1) dumps loads
  have "\<exists>u1. analysis_review (on_store ?env) acme (world_with True []) = (Inr example_result, u1)
      \<and> analysis_review (on_store ?env) acme u1
          = (Inr (PDict ?kvs), u1\<lparr>calls := calls u1 @ [RedisGet acme_key]\<rparr>)"
    by simp
  then obtain u1 where
    one: "analysis_review (on_store ?env) acme (world_with True []) = (Inr example_result, u1)"
    and two: "analysis_review (on_store ?env) acme u1
          = (Inr (PDict ?kvs), u1\<lparr>calls := calls u1 @ [RedisGet acme_key]\<rparr>)"
    by blast
  from one have "u1 = cached_world"
    unfolding on_store_example first_analysis_of_acme by simp
  with two have "analysis_review ?env acme cached_world
      = (Inr example_result, cached_world\<lparr>calls := calls cached_world @ [RedisGet acme_key]\<rparr>)"
    unfolding on_store_example result [symmetric] by simp
  with first_analysis_of_acme show ?thesis
    by simp
qed

section \<open>The failing pipeline\<close>

text \<open>
  Claim C2. For every identifier, if the pipeline fails at any stage (fetching the records
  or either transform stage raises), \<^verbatim>\<open>analysis_review\<close> returns the default result
  (\<^verbatim>\<open>pros\<close> and \<^verbatim>\<open>cons\<close> each with the score 0.0 and empty keywords and sample reviews,
  and a table field that says it is empty), no exception reaches the caller, and no cache
  entry is written for the identifier.

  The pipeline is reached when the key is derived and the value read from the cache is
  false. Then the call returns (\<open>Inr\<close>) the default response; the backend is left in the
  state the cache read left it in, and the call issues no \<^verbatim>\<open>setex\<close>.
\<close>

theorem analysis_review_pipeline_failure:
  assumes key: "get_cache_key name = Inr key"
    and miss: "get_from_cache env key w = (cached, w1)" "\<not> truthy cached"
    and fail: "get_reviews_by_company env name = Inl e
       \<or> (\<exists>reviews. get_reviews_by_company env name = Inr reviews
            \<and> (preprocess_reviews env reviews = Inl e
               \<or> (\<exists>df. preprocess_reviews env reviews = Inr df
                    \<and> analyze_reviews_with_keywords env df = Inl e)))"
  shows "\<exists>w2. analysis_review env name w = (Inr get_default_response, w2)
           \<and> is_default_result get_default_response
           \<and> redis w2 = redis w1
           \<and> filter is_setex (calls w2) = filter is_setex (calls w)"
proof -
  obtain r w2 where run: "perform_analysis env name w1 = (r, w2)"
    by (cases "perform_analysis env name w1")
  from perform_analysis_fails [OF fail, of w1] run have r: "r = Inl e"
    by simp
  have "analysis_review env name w = (Inr get_default_response, w2)"
    by (simp add: analysis_review_def key miss run r)
  moreover have "redis w2 = redis w1"
    using perform_analysis_redis [of env name w1] run by simp
  moreover have "filter is_setex (calls w2) = filter is_setex (calls w)"
    using perform_analysis_setex [of env name w1] get_from_cache_setex [of env key w] run miss
    by simp
  ultimately show ?thesis
    using default_is_default by blast
qed

text \<open>The example: the record store times out for Acme, on an empty store.\<close>

theorem analysis_review_pipeline_failure_witness:
  "\<exists>w2. analysis_review (example_env fetch_fails example_result) acme (world_with True [])
          = (Inr get_default_response, w2)
      \<and> is_default_result get_default_response
      \<and> redis w2 = redis (world_with True [])
      \<and> filter is_setex (calls w2) = []"
proof -
  let ?env = "example_env fetch_fails example_result"
  let ?w1 = "\<lparr>redis = redis (world_with True []), calls = [RedisGet acme_key]\<rparr>"
  have miss: "get_from_cache ?env acme_key (world_with True []) = (PNone, ?w1)"
    by (simp add: service_defs example_defs)
  have falsy: "\<not> truthy PNone"
    by simp
  have fail: "get_reviews_by_company ?env acme = Inl (OtherException ''ServerSelectionTimeoutError'')
       \<or> (\<exists>reviews. get_reviews_by_company ?env acme = Inr reviews
            \<and> (preprocess_reviews ?env reviews = Inl (OtherException ''ServerSelectionTimeoutError'')
               \<or> (\<exists>df. preprocess_reviews ?env reviews = Inr df
                    \<and> analyze_reviews_with_keywords ?env df
                        = Inl (OtherException ''ServerSelectionTimeoutError''))))"
    by (simp add: example_env_def fetch_fails_def)
  from analysis_review_pipeline_failure [OF get_cache_key_acme miss falsy fail]
  show ?thesis
    by (simp add: world_with_def)
qed

section \<open>The shape of what is returned\<close>

text \<open>
  Claim C3. For every identifier and every cache state, every value \<^verbatim>\<open>analysis_review\<close>
  returns (from the cache, from the pipeline or from the fallback) is a mapping with at
  least the sections \<^verbatim>\<open>pros\<close> and \<^verbatim>\<open>cons\<close>, each with a score, a keyword sequence and
  a sample-review sequence; in particular a cached value that is a plain string or not a
  mapping never reaches the caller as the result.

  It does reach the caller. When the entry of Acme holds the text \<^verbatim>\<open>hello\<close>,
  \<^verbatim>\<open>json.loads\<close> raises \<^verbatim>\<open>JSONDecodeError\<close>, \<^verbatim>\<open>_get_from_cache\<close> returns the text
  itself (line 33), the text is true, and \<^verbatim>\<open>analysis_review\<close> returns it (line 71).
\<close>

theorem analysis_review_returns_cached_text:
  "fst (analysis_review (example_env fetch_ok example_result) acme
          (world_with True [(acme_key, str ''hello'', 3600)]))
     = Inr (PStr (str ''hello''))
   \<and> \<not> is_analysis_result (PStr (str ''hello''))"
  by (simp add: service_defs example_defs is_analysis_result_def dict_get_def)

text \<open>
  Claim C3, amended. For every identifier whose key is derived and every cache state:

    \<^item> a true cached value is returned as it is, whatever it is, in the state the cache read
      left;

    \<^item> when the adapter is ready and \<^verbatim>\<open>get\<close> returns a text, the cached value is what
      \<^verbatim>\<open>json.loads\<close> makes of the text (a mapping, a list, a number or a string), the text
      itself as a plain string when \<^verbatim>\<open>json.loads\<close> raises \<^verbatim>\<open>JSONDecodeError\<close>, and
      \<^verbatim>\<open>None\<close> when it raises anything else;

    \<^item> when the cached value is false, the result of the pipeline is returned if the
      pipeline succeeds, and the default response if it raises;

    \<^item> the default response has the shape of an analysis result; so the value returned has
      that shape provided that the cached value has it whenever it is true, and that the
      result of the pipeline has it whenever the pipeline succeeds.
\<close>

theorem analysis_review_shape:
  assumes key: "get_cache_key name = Inr key"
    and read: "get_from_cache env key w = (cached, w1)"
  shows "(truthy cached \<longrightarrow> analysis_review env name w = (Inr cached, w1))
       \<and> (redis_ready env w \<and> fst (redis_get env key (redis w)) = Inr (Some text)
            \<longrightarrow> cached = (case json_loads env text of
                             Inr parsed \<Rightarrow> parsed
                           | Inl JSONDecodeError \<Rightarrow> PStr text
                           | Inl e \<Rightarrow> PNone))
       \<and> (\<not> truthy cached
            \<longrightarrow> fst (analysis_review env name w)
                  = Inr (case fst (perform_analysis env name w1) of
                           Inl e \<Rightarrow> get_default_response
                         | Inr analysis_result \<Rightarrow> analysis_result))
       \<and> is_analysis_result get_default_response
       \<and> ((truthy cached \<longrightarrow> is_analysis_result cached)
              \<and> (\<forall>r. fst (perform_analysis env name w1) = Inr r \<longrightarrow> is_analysis_result r)
            \<longrightarrow> (\<exists>v. fst (analysis_review env name w) = Inr v \<and> is_analysis_result v))"
proof -
  have hit: "analysis_review env name w = (Inr cached, w1)" if "truthy cached"
    using key read that by (simp add: analysis_review_def)
  have parsed: "cached = (case json_loads env text of
                            Inr parsed \<Rightarrow> parsed
                          | Inl JSONDecodeError \<Rightarrow> PStr text
                          | Inl e \<Rightarrow> PNone)"
    if "redis_ready env w" "fst (redis_get env key (redis w)) = Inr (Some text)"
    using read that
    by (auto simp: get_from_cache_def redis_client_get_def split: prod.splits sum.splits exn.splits)
  have miss: "fst (analysis_review env name w)
                = Inr (case fst (perform_analysis env name w1) of
                         Inl e \<Rightarrow> get_default_response
                       | Inr analysis_result \<Rightarrow> analysis_result)"
    if "\<not> truthy cached"
    using key read that by (simp add: analysis_review_def split: prod.splits sum.splits)
  have shape: "\<exists>v. fst (analysis_review env name w) = Inr v \<and> is_analysis_result v"
    if cached: "truthy cached \<longrightarrow> is_analysis_result cached"
      and run: "\<forall>r. fst (perform_analysis env name w1) = Inr r \<longrightarrow> is_analysis_result r"
  proof (cases "truthy cached")
    case True
    with hit cached show ?thesis
      by simp
  next
    case False
    show ?thesis
    proof (cases "fst (perform_analysis env name w1)")
      case (Inl e)
      with miss [OF False] default_is_result show ?thesis
        by simp
    next
      case (Inr res)
      with run have "is_analysis_result res"
        by simp
      with miss [OF False] Inr show ?thesis
        by simp
    qed
  qed
  from hit parsed miss shape default_is_result show ?thesis
    by blast
qed

text \<open>
  The examples: the entry of Acme holds the text of a result, the text of a list, and a
  text that is not JSON; each is returned as read. On an empty store the result of the
  pipeline is returned.
\<close>

theorem analysis_review_shape_witness:
  "analysis_review (example_env fetch_ok example_result) acme
       (world_with True [(acme_key, example_text, 3600)])
     = (Inr example_result,
        \<lparr>redis = \<lparr>link_up = True, client = True, entries = [(acme_key, example_text, 3600)]\<rparr>,
         calls = [RedisGet acme_key]\<rparr>)
   \<and> is_analysis_result example_result
   \<and> analysis_review (example_env fetch_ok example_result) acme
         (world_with True [(acme_key, str ''[1, 2]'', 3600)])
       = (Inr (PList [PInt 1, PInt 2]),
          \<lparr>redis = \<lparr>link_up = True, client = True, entries = [(acme_key, str ''[1, 2]'', 3600)]\<rparr>,
           calls = [RedisGet acme_key]\<rparr>)
   \<and> analysis_review (example_env fetch_ok example_result) acme
         (world_with True [(acme_key, str ''hello'', 3600)])
       = (Inr (PStr (str ''hello'')),
          \<lparr>redis = \<lparr>link_up = True, client = True, entries = [(acme_key, str ''hello'', 3600)]\<rparr>,
           calls = [RedisGet acme_key]\<rparr>)
   \<and> fst (analysis_review (example_env fetch_ok example_result) acme (world_with True []))
       = Inr example_result"
proof -
  let ?env = "example_env fetch_ok example_result"
  have result: "get_from_cache ?env acme_key (world_with True [(acme_key, example_text, 3600)])
      = (example_result,
         \<lparr>redis = \<lparr>link_up = True, client = True, entries = [(acme_key, example_text, 3600)]\<rparr>,
          calls = [RedisGet acme_key]\<rparr>)"
    by (simp add: service_defs example_defs)
  have listed: "get_from_cache ?env acme_key (world_with True [(acme_key, str ''[1, 2]'', 3600)])
      = (PList [PInt 1, PInt 2],
         \<lparr>redis = \<lparr>link_up = True, client = True, entries = [(acme_key, str ''[1, 2]'', 3600)]\<rparr>,
          calls = [RedisGet acme_key]\<rparr>)"
    by (simp add: service_defs example_defs example_list_json)
  have plain: "get_from_cache ?env acme_key (world_with True [(acme_key, str ''hello'', 3600)])
      = (PStr (str ''hello''),
         \<lparr>redis = \<lparr>link_up = True, client = True, entries = [(acme_key, str ''hello'', 3600)]\<rparr>,
          calls = [RedisGet acme_key]\<rparr>)"
    by (simp add: service_defs example_defs)
  have absent: "get_from_cache ?env acme_key (world_with True [])
      = (PNone, \<lparr>redis = \<lparr>link_up = True, client = True, entries = []\<rparr>, calls = [RedisGet acme_key]\<rparr>)"
    by (simp add: service_defs example_defs)
  have run: "fst (perform_analysis ?env acme
                 \<lparr>redis = \<lparr>link_up = True, client = True, entries = []\<rparr>, calls = [RedisGet acme_key]\<rparr>)
      = Inr example_result"
    by (simp add: service_defs example_defs)
  from analysis_review_shape [OF get_cache_key_acme result]
    analysis_review_shape [OF get_cache_key_acme listed]
    analysis_review_shape [OF get_cache_key_acme plain]
    analysis_review_shape [OF get_cache_key_acme absent]
  show ?thesis
    by (simp add: run example_result_kinds example_texts_differ example_result_shape)
qed

section \<open>The result and the write to the cache\<close>

text \<open>
  Claim C5. For every identifier on the path where the pipeline succeeds,
  \<^verbatim>\<open>analysis_review\<close> returns the pipeline's result whatever the outcome of the cache
  write: \<^verbatim>\<open>_set_to_cache\<close> never raises past its boundary (an internal error or an
  unavailable backend yields \<^verbatim>\<open>False\<close>), and the result returned is the same whether
  the write reported success or failure.

  \<open>stored\<close> is what \<^verbatim>\<open>_set_to_cache\<close> returns. It is \<^verbatim>\<open>True\<close> exactly when the adapter
  is ready, the value for Redis was made without an exception and \<^verbatim>\<open>setex\<close> answered
  \<^verbatim>\<open>True\<close>; in every other case (adapter not ready, \<^verbatim>\<open>json.dumps\<close> raises, \<^verbatim>\<open>setex\<close>
  raises or answers \<^verbatim>\<open>False\<close>) it is \<^verbatim>\<open>False\<close>. Either way the call returns the result of
  the pipeline.
\<close>

theorem analysis_review_result_whatever_the_write:
  assumes key: "get_cache_key name = Inr key"
    and miss: "get_from_cache env key w = (cached, w1)" "\<not> truthy cached"
    and run: "perform_analysis env name w1 = (Inr result, w2)"
  shows "\<exists>stored w3.
           set_to_cache env key result (review_analysis_cache_expire_time env) w2 = (stored, w3)
           \<and> analysis_review env name w = (Inr result, w3)
           \<and> stored = (redis_ready env w2
                \<and> (\<exists>rv. redis_value env result = Inr rv
                      \<and> fst (redis_setex env key (review_analysis_cache_expire_time env) rv (redis w2))
                          = Inr True))"
proof -
  obtain stored w3 where
    s: "set_to_cache env key result (review_analysis_cache_expire_time env) w2 = (stored, w3)"
    by (cases "set_to_cache env key result (review_analysis_cache_expire_time env) w2")
  have "analysis_review env name w = (Inr result, w3)"
    by (simp add: analysis_review_def key miss run s)
  moreover have "stored = (redis_ready env w2
      \<and> (\<exists>rv. redis_value env result = Inr rv
            \<and> fst (redis_setex env key (review_analysis_cache_expire_time env) rv (redis w2))
                = Inr True))"
    using set_to_cache_stored [of env key result "review_analysis_cache_expire_time env" w2] s
    by simp
  ultimately show ?thesis
    using s by blast
qed

text \<open>
  The example: a first analysis of Acme on an empty store. With a result of plain values
  the write succeeds, with a result that carries a table \<^verbatim>\<open>json.dumps\<close> raises and the
  write reports \<^verbatim>\<open>False\<close>; each time the result is returned.
\<close>

lemma read_of_empty_store:
  "get_from_cache (example_env fetch result) acme_key (world_with True []) = (PNone, read_world)"
  by (simp add: service_defs example_defs read_world_def)

lemma pipeline_after_read:
  "perform_analysis (example_env fetch_ok result) acme read_world = (Inr result, pipeline_world)"
  by (simp add: service_defs example_defs read_world_def pipeline_world_def)

theorem analysis_review_result_whatever_the_write_witness:
  "(\<exists>w3. set_to_cache (example_env fetch_ok example_result) acme_key example_result 3600 pipeline_world
            = (True, w3)
        \<and> analysis_review (example_env fetch_ok example_result) acme (world_with True [])
            = (Inr example_result, w3))
   \<and> (\<exists>w3. set_to_cache (example_env fetch_ok table_result) acme_key table_result 3600 pipeline_world
            = (False, w3)
        \<and> analysis_review (example_env fetch_ok table_result) acme (world_with True [])
            = (Inr table_result, w3))"
proof -
  have falsy: "\<not> truthy PNone"
    by simp
  have ttl: "review_analysis_cache_expire_time (example_env fetch_ok r) = 3600" for r
    by (simp add: example_env_def)
  have ready: "redis_ready (example_env fetch_ok r) pipeline_world" for r
    by (simp add: redis_ready_def example_env_def pipeline_world_def)
  have plain: "redis_value (example_env fetch_ok example_result) example_result = Inr (PStr example_text)"
    by (simp add: redis_value_def example_defs)
  have table: "redis_value (example_env fetch_ok table_result) table_result = Inl (OtherException ''TypeError'')"
    by (simp add: redis_value_def example_defs)
  have setex: "fst (redis_setex (example_env fetch_ok example_result) acme_key 3600 (PStr example_text)
                 (redis pipeline_world)) = Inr True"
    by (simp add: example_defs pipeline_world_def)
  from analysis_review_result_whatever_the_write
    [OF get_cache_key_acme read_of_empty_store falsy pipeline_after_read, of example_result]
  have a: "\<exists>w3. set_to_cache (example_env fetch_ok example_result) acme_key example_result 3600 pipeline_world
            = (True, w3)
        \<and> analysis_review (example_env fetch_ok example_result) acme (world_with True [])
            = (Inr example_result, w3)"
    by (auto simp: ttl ready plain setex)
  from analysis_review_result_whatever_the_write
    [OF get_cache_key_acme read_of_empty_store falsy pipeline_after_read, of table_result]
  have b: "\<exists>w3. set_to_cache (example_env fetch_ok table_result) acme_key table_result 3600 pipeline_world
            = (False, w3)
        \<and> analysis_review (example_env fetch_ok table_result) acme (world_with True [])
            = (Inr table_result, w3)"
    by (auto simp: ttl ready table)
  from a b show ?thesis ..
qed

section \<open>The unavailable backend\<close>

text \<open>
  Claim C6. When the cache backend reports itself unavailable (not connected), every cache
  operation is a no-op that returns its neutral value (\<^verbatim>\<open>_get_from_cache\<close> absence,
  \<^verbatim>\<open>_set_to_cache\<close> \<^verbatim>\<open>False\<close>, \<^verbatim>\<open>clear_analysis_cache\<close> 0), none raises, the cache
  state is unchanged, and \<^verbatim>\<open>analysis_review\<close> still returns the result the pipeline
  computes, on every call.

  Not ready means that \<^verbatim>\<open>is_connected\<close> is false or \<^verbatim>\<open>_redis\<close> is \<^verbatim>\<open>None\<close>. Each
  operation then returns its neutral value and leaves the whole state as it is: it calls
  no collaborator. A call of \<^verbatim>\<open>analysis_review\<close> is then exactly a run of the pipeline,
  which leaves the backend as it is, so that the next call finds it unavailable again.
\<close>

theorem cache_operations_when_unavailable:
  assumes down: "\<not> redis_ready env w"
  shows "get_from_cache env key w = (PNone, w)
       \<and> set_to_cache env key v ttl w = (False, w)
       \<and> clear_analysis_cache env company_name w = (0, w)
       \<and> (get_cache_key name = Inr k \<and> perform_analysis env name w = (Inr result, w2)
            \<longrightarrow> analysis_review env name w = (Inr result, w2) \<and> redis w2 = redis w)"
proof -
  have "analysis_review env name w = (Inr result, w2) \<and> redis w2 = redis w"
    if k: "get_cache_key name = Inr k" and run: "perform_analysis env name w = (Inr result, w2)"
  proof -
    have r: "redis w2 = redis w"
      using perform_analysis_redis [of env name w] run by simp
    then have "\<not> redis_ready env w2"
      using down redis_ready_redis by blast
    then have "set_to_cache env k result (review_analysis_cache_expire_time env) w2 = (False, w2)"
      by (rule set_to_cache_not_ready)
    then show ?thesis
      using r by (simp add: analysis_review_def k get_from_cache_not_ready [OF down] run)
  qed
  then show ?thesis
    using get_from_cache_not_ready [OF down] set_to_cache_not_ready [OF down]
      clear_analysis_cache_not_ready [OF down]
    by blast
qed

text \<open>
  The example: the store holds an entry for Acme, but the adapter is not connected.
\<close>

theorem cache_operations_when_unavailable_witness:
  "get_from_cache (example_env fetch_ok example_result) acme_key
       (world_with False [(acme_key, example_text, 3600)])
     = (PNone, world_with False [(acme_key, example_text, 3600)])
   \<and> set_to_cache (example_env fetch_ok example_result) acme_key example_result 3600
       (world_with False [(acme_key, example_text, 3600)])
     = (False, world_with False [(acme_key, example_text, 3600)])
   \<and> clear_analysis_cache (example_env fetch_ok example_result) (Some acme)
       (world_with False [(acme_key, example_text, 3600)])
     = (0, world_with False [(acme_key, example_text, 3600)])
   \<and> analysis_review (example_env fetch_ok example_result) acme
       (world_with False [(acme_key, example_text, 3600)])
     = (Inr example_result,
        \<lparr>redis = \<lparr>link_up = False, client = True, entries = [(acme_key, example_text, 3600)]\<rparr>,
         calls = [GetReviewsByCompany acme, RunInExecutor Preprocess example_reviews,
                  RunInExecutor Analyze example_table]\<rparr>)"
proof -
  let ?env = "example_env fetch_ok example_result"
  let ?w = "world_with False [(acme_key, example_text, 3600)]"
  let ?w2 = "\<lparr>redis = \<lparr>link_up = False, client = True, entries = [(acme_key, example_text, 3600)]\<rparr>,
         calls = [GetReviewsByCompany acme, RunInExecutor Preprocess example_reviews,
                  RunInExecutor Analyze example_table]\<rparr>"
  have down: "\<not> redis_ready ?env ?w"
    by (simp add: redis_ready_def example_env_def world_with_def)
  have run: "perform_analysis ?env acme ?w = (Inr example_result, ?w2)"
    by (simp add: service_defs example_defs)
  from cache_operations_when_unavailable
    [OF down, of acme_key example_result 3600 "Some acme" acme acme_key example_result ?w2]
  show ?thesis
    by (simp add: get_cache_key_acme run)
qed

section \<open>The false cached value\<close>

text \<open>
  Claim C8. For every identifier whose cached value is false (a value that deserializes to
  an empty mapping, or absence), \<^verbatim>\<open>analysis_review\<close> treats it exactly as a cache miss:
  it fetches the records and then runs the transform stages, on a worker, and does not
  return the false cached value.

  Whatever false value the cache read returned, the result and the state of the call are a
  function of the state \<open>w1\<close> the read left and of the collaborators alone, the one of a
  miss. \<^verbatim>\<open>get_reviews_by_company\<close> is called first; if it returned, \<^verbatim>\<open>preprocess_reviews\<close>
  is run in the executor on the reviews; if that returned, \<^verbatim>\<open>analyze_reviews_with_keywords\<close>
  is run in the executor on the table. If one of the three raised, the default response
  is returned and nothing more is called. Otherwise the result of the analysis is
  returned, and it is written under the key when the adapter is ready and the value for
  Redis could be built: then \<^verbatim>\<open>setex\<close> is the last call, and the backend is as it
  leaves it.
\<close>

theorem analysis_review_false_cached_value:
  assumes key: "get_cache_key name = Inr key"
    and read: "get_from_cache env key w = (cached, w1)"
    and falsy: "\<not> truthy cached"
  shows "analysis_review env name w =
     (case get_reviews_by_company env name of
        Inl e \<Rightarrow>
          (Inr get_default_response,
           \<lparr>redis = redis w1, calls = calls w1 @ [GetReviewsByCompany name]\<rparr>)
      | Inr reviews \<Rightarrow>
          (case preprocess_reviews env reviews of
             Inl e \<Rightarrow>
               (Inr get_default_response,
                \<lparr>redis = redis w1,
                 calls = calls w1 @ [GetReviewsByCompany name, RunInExecutor Preprocess reviews]\<rparr>)
           | Inr df \<Rightarrow>
               (case analyze_reviews_with_keywords env df of
                  Inl e \<Rightarrow>
                    (Inr get_default_response,
                     \<lparr>redis = redis w1,
                      calls = calls w1 @ [GetReviewsByCompany name, RunInExecutor Preprocess reviews,
                                          RunInExecutor Analyze df]\<rparr>)
                | Inr analysis_result \<Rightarrow>
                    (Inr analysis_result,
                     if redis_ready env w1 then
                       (case redis_value env analysis_result of
                          Inl e \<Rightarrow>
                            \<lparr>redis = redis w1,
                             calls = calls w1 @ [GetReviewsByCompany name,
                                                 RunInExecutor Preprocess reviews,
                                                 RunInExecutor Analyze df]\<rparr>
                        | Inr rv \<Rightarrow>
                            \<lparr>redis = snd (redis_setex env key (review_analysis_cache_expire_time env)
                                            rv (redis w1)),
                             calls = calls w1 @ [GetReviewsByCompany name,
                                                 RunInExecutor Preprocess reviews,
                                                 RunInExecutor Analyze df,
                                                 RedisSetex key (review_analysis_cache_expire_time env) rv]\<rparr>)
                     else
                       \<lparr>redis = redis w1,
                        calls = calls w1 @ [GetReviewsByCompany name, RunInExecutor Preprocess reviews,
                                            RunInExecutor Analyze df]\<rparr>))))"
  using key read falsy
  by (simp add: analysis_review_def perform_analysis_def get_reviews_def run_in_executor_def
      set_to_cache_def redis_client_setex_def redis_ready_def split: sum.splits prod.splits)

text \<open>
  The example: the entry of Acme holds the text \<^verbatim>\<open>{}\<close>, which \<^verbatim>\<open>json.loads\<close> turns
  into the empty dictionary. The records are fetched, the two stages run, and the text of
  the result replaces the entry; with a record store that fails, the default response is
  returned after the one call to it, and the entry stays.
\<close>

theorem analysis_review_false_cached_value_witness:
  "analysis_review (example_env fetch_ok example_result) acme
       (world_with True [(acme_key, str ''{}'', 3600)])
     = (Inr example_result,
        \<lparr>redis = \<lparr>link_up = True, client = True, entries = [(acme_key, example_text, 3600)]\<rparr>,
         calls =
           [RedisGet acme_key, GetReviewsByCompany acme, RunInExecutor Preprocess example_reviews,
            RunInExecutor Analyze example_table, RedisSetex acme_key 3600 (PStr example_text)]\<rparr>)
   \<and> analysis_review (example_env fetch_fails example_result) acme
         (world_with True [(acme_key, str ''{}'', 3600)])
       = (Inr get_default_response,
          \<lparr>redis = \<lparr>link_up = True, client = True, entries = [(acme_key, str ''{}'', 3600)]\<rparr>,
           calls = [RedisGet acme_key, GetReviewsByCompany acme]\<rparr>)"
proof -
  let ?w = "world_with True [(acme_key, str ''{}'', 3600)]"
  let ?w1 = "\<lparr>redis = \<lparr>link_up = True, client = True, entries = [(acme_key, str ''{}'', 3600)]\<rparr>,
             calls = [RedisGet acme_key]\<rparr>"
  have read: "get_from_cache (example_env fetch_ok example_result) acme_key ?w = (PDict [], ?w1)"
    by (simp add: service_defs example_defs example_texts_differ [symmetric])
  have read_fails: "get_from_cache (example_env fetch_fails example_result) acme_key ?w = (PDict [], ?w1)"
    by (simp add: service_defs example_defs example_texts_differ [symmetric])
  have falsy: "\<not> truthy (PDict [])"
    by simp
  from analysis_review_false_cached_value [OF get_cache_key_acme read falsy]
    analysis_review_false_cached_value [OF get_cache_key_acme read_fails falsy]
  show ?thesis
    by (simp add: redis_ready_def redis_value_def example_defs)
qed

section \<open>The wire format\<close>

text \<open>
  Claim C9. For every value written by \<^verbatim>\<open>_set_to_cache\<close>: a mapping or sequence is stored
  as compact JSON text with non-ASCII characters kept unescaped, and any other (scalar)
  value is stored verbatim.

  The text is not compact. Line 45 calls \<^verbatim>\<open>json.dumps(value, ensure_ascii=False)\<close> with
  the separators of the module's default, \<^verbatim>\<open>', '\<close> and \<^verbatim>\<open>': '\<close>. The result of the
  examples is stored under the key of Acme as \<open>example_text\<close>, the text the encoder
  writes for it, which has thirteen blanks outside its string literals, one after every
  comma and every colon.
\<close>

theorem set_to_cache_text_is_not_compact:
  "set_to_cache (example_env fetch_ok example_result) acme_key example_result 3600
       (world_with True [])
     = (True,
        \<lparr>redis = \<lparr>link_up = True, client = True, entries = [(acme_key, example_text, 3600)]\<rparr>,
         calls = [RedisSetex acme_key 3600 (PStr example_text)]\<rparr>)
   \<and> json_dumps_unescaped example_float_repr example_result = Inr example_text
   \<and> blanks_outside_strings 0 example_text = 13
   \<and> \<not> compact example_text"
proof -
  have "\<not> holds_object example_result"
    by (simp add: example_result_def)
  then have "json_dumps_unescaped example_float_repr example_result = Inr example_text"
    by (simp add: json_dumps_unescaped_def json_text_example)
  moreover have "blanks_outside_strings 0 example_text = 13"
    by (simp add: example_text_def str_def)
  moreover have "set_to_cache (example_env fetch_ok example_result) acme_key example_result 3600
       (world_with True [])
     = (True,
        \<lparr>redis = \<lparr>link_up = True, client = True, entries = [(acme_key, example_text, 3600)]\<rparr>,
         calls = [RedisSetex acme_key 3600 (PStr example_text)]\<rparr>)"
    by (simp add: service_defs example_defs)
  ultimately show ?thesis
    by (simp add: compact_def)
qed

text \<open>
  Claim C9, amended. For every value written by \<^verbatim>\<open>_set_to_cache\<close>, that is when the
  adapter is ready: a dictionary or list is handed to \<^verbatim>\<open>setex\<close>, under the key and with
  the time to live given, as the JSON text \<^verbatim>\<open>json.dumps(value, ensure_ascii=False)\<close>
  returns, and any other value is handed to \<^verbatim>\<open>setex\<close> as it is. In both cases it is the
  one call the operation makes, the operation returns what \<^verbatim>\<open>setex\<close> answers
  (\<^verbatim>\<open>False\<close> if it raises), and the backend is as \<^verbatim>\<open>setex\<close> leaves it.

  The text is in the default layout of the module, not the compact one: the members of a
  list (or of a tuple inside the value), and the items of a dictionary, are separated by
  a comma and a blank, and a key is separated from its value by a colon and a blank. A
  string none of whose characters is a quote, a backslash or a control character is
  written between quotes as it is, so non-ASCII characters are kept unescaped.
\<close>

theorem set_to_cache_wire_format:
  assumes ready: "redis_ready env w"
  shows "(isinstance_dict_list v \<and> \<not> holds_object v
            \<and> json_dumps env v False = json_dumps_unescaped float_repr v
          \<longrightarrow> set_to_cache env key v ttl w
                = (case redis_setex env key ttl (PStr (json_text float_repr v)) (redis w) of
                     (answer, b) \<Rightarrow>
                       ((case answer of Inl e \<Rightarrow> False | Inr success \<Rightarrow> success),
                        \<lparr>redis = b,
                         calls = calls w @ [RedisSetex key ttl (PStr (json_text float_repr v))]\<rparr>)))
       \<and> (\<not> isinstance_dict_list v
          \<longrightarrow> set_to_cache env key v ttl w
                = (case redis_setex env key ttl v (redis w) of
                     (answer, b) \<Rightarrow>
                       ((case answer of Inl e \<Rightarrow> False | Inr success \<Rightarrow> success),
                        \<lparr>redis = b, calls = calls w @ [RedisSetex key ttl v]\<rparr>)))
       \<and> json_text float_repr (PList []) = str ''[]''
       \<and> json_text float_repr (PList [x]) = [91] @ json_text float_repr x @ [93]
       \<and> json_text float_repr (PList (x # y # ys))
           = [91] @ json_text float_repr x @ str '', '' @ tl (json_text float_repr (PList (y # ys)))
       \<and> json_text float_repr (PTuple xs) = json_text float_repr (PList xs)
       \<and> json_text float_repr (PDict []) = str ''{}''
       \<and> json_text float_repr (PDict [(k, x)])
           = [123] @ json_text float_repr (PStr k) @ str '': '' @ json_text float_repr x @ [125]
       \<and> json_text float_repr (PDict ((k, x) # kv # kvs))
           = [123] @ json_text float_repr (PStr k) @ str '': '' @ json_text float_repr x @ str '', ''
               @ tl (json_text float_repr (PDict (kv # kvs)))
       \<and> (list_all (\<lambda>c. 32 \<le> c \<and> c \<noteq> 34 \<and> c \<noteq> 92) s
          \<longrightarrow> json_text float_repr (PStr s) = [34] @ s @ [34])"
proof -
  have structured: "set_to_cache env key v ttl w
      = (case redis_setex env key ttl (PStr (json_text float_repr v)) (redis w) of
           (answer, b) \<Rightarrow>
             ((case answer of Inl e \<Rightarrow> False | Inr success \<Rightarrow> success),
              \<lparr>redis = b, calls = calls w @ [RedisSetex key ttl (PStr (json_text float_repr v))]\<rparr>))"
    if "isinstance_dict_list v" "\<not> holds_object v"
      "json_dumps env v False = json_dumps_unescaped float_repr v"
  proof -
    from that have "redis_value env v = Inr (PStr (json_text float_repr v))"
      by (simp add: redis_value_def json_dumps_unescaped_def)
    with ready show ?thesis
      by (rule set_to_cache_sends)
  qed
  have scalar: "set_to_cache env key v ttl w
      = (case redis_setex env key ttl v (redis w) of
           (answer, b) \<Rightarrow>
             ((case answer of Inl e \<Rightarrow> False | Inr success \<Rightarrow> success),
              \<lparr>redis = b, calls = calls w @ [RedisSetex key ttl v]\<rparr>))"
    if "\<not> isinstance_dict_list v"
  proof -
    from that have "redis_value env v = Inr v"
      by (simp add: redis_value_def)
    with ready show ?thesis
      by (rule set_to_cache_sends)
  qed
  from structured scalar json_text_list [of float_repr] json_text_dict [of float_repr]
    json_text_tuple [of float_repr xs] json_text_plain_string [of s float_repr]
  show ?thesis
    by blast
qed

text \<open>
  The examples: a result with a Korean keyword is stored as its JSON text, in which the
  keyword stands as it is; a string is stored as it is, and a number is handed to
  \<^verbatim>\<open>setex\<close> as it is. The list of the Korean keyword and \<^verbatim>\<open>pay\<close> is written with the
  keyword unescaped and a blank after the comma.
\<close>

theorem set_to_cache_wire_format_witness:
  "set_to_cache (example_env fetch_ok example_result) acme_key example_result 3600
       (world_with True [])
     = (True,
        \<lparr>redis = \<lparr>link_up = True, client = True, entries = [(acme_key, example_text, 3600)]\<rparr>,
         calls = [RedisSetex acme_key 3600 (PStr example_text)]\<rparr>)
   \<and> set_to_cache (example_env fetch_ok example_result) acme_key (PStr (str ''hello'')) 3600
         (world_with True [])
       = (True,
          \<lparr>redis = \<lparr>link_up = True, client = True, entries = [(acme_key, str ''hello'', 3600)]\<rparr>,
           calls = [RedisSetex acme_key 3600 (PStr (str ''hello''))]\<rparr>)
   \<and> calls (snd (set_to_cache (example_env fetch_ok example_result) acme_key (PInt 5) 3600
                   (world_with True [])))
       = [RedisSetex acme_key 3600 (PInt 5)]
   \<and> json_text example_float_repr (PList [PStr [0xC5F0, 0xBD09], PStr (str ''pay'')])
       = [91, 34, 0xC5F0, 0xBD09, 34, 44, 32, 34, 112, 97, 121, 34, 93]"
proof -
  let ?env = "example_env fetch_ok example_result"
  have ready: "redis_ready ?env (world_with True [])"
    by (simp add: redis_ready_def example_env_def world_with_def)
  have plain: "\<not> holds_object example_result"
    by (simp add: example_result_def)
  then have dumps: "example_dumps example_result False
      = json_dumps_unescaped example_float_repr example_result"
    by (simp add: example_json json_dumps_unescaped_def json_text_example)
  have keyword: "list_all (\<lambda>c. 32 \<le> c \<and> c \<noteq> 34 \<and> c \<noteq> 92) ([0xC5F0, 0xBD09] :: pystr)"
    "list_all (\<lambda>c. 32 \<le> c \<and> c \<noteq> 34 \<and> c \<noteq> 92) (str ''pay'')"
    by (simp_all add: str_def)
  from set_to_cache_wire_format [OF ready, where v = example_result
      and float_repr = example_float_repr and key = acme_key and ttl = 3600]
  have structured: "set_to_cache ?env acme_key example_result 3600 (world_with True [])
     = (True,
        \<lparr>redis = \<lparr>link_up = True, client = True, entries = [(acme_key, example_text, 3600)]\<rparr>,
         calls = [RedisSetex acme_key 3600 (PStr example_text)]\<rparr>)"
    by (simp add: plain dumps json_text_example example_result_kinds example_env_def
        world_with_def store_setex_def available_def)
  from set_to_cache_wire_format [OF ready, where v = "PStr (str ''hello'')"
      and float_repr = example_float_repr and key = acme_key and ttl = 3600]
  have verbatim: "set_to_cache ?env acme_key (PStr (str ''hello'')) 3600 (world_with True [])
     = (True,
        \<lparr>redis = \<lparr>link_up = True, client = True, entries = [(acme_key, str ''hello'', 3600)]\<rparr>,
         calls = [RedisSetex acme_key 3600 (PStr (str ''hello''))]\<rparr>)"
    by (simp add: example_env_def world_with_def store_setex_def available_def)
  from set_to_cache_wire_format [OF ready, where v = "PInt 5"
      and float_repr = example_float_repr and key = acme_key and ttl = 3600]
  have number: "calls (snd (set_to_cache ?env acme_key (PInt 5) 3600 (world_with True [])))
     = [RedisSetex acme_key 3600 (PInt 5)]"
    by (simp add: example_env_def world_with_def store_setex_def available_def)
  from set_to_cache_wire_format [OF ready, where float_repr = example_float_repr
      and x = "PStr [0xC5F0, 0xBD09]" and y = "PStr (str ''pay'')" and ys = "[]"
      and s = "[0xC5F0, 0xBD09]"]
  have listed: "json_text example_float_repr (PList [PStr [0xC5F0, 0xBD09], PStr (str ''pay'')])
     = [91, 34, 0xC5F0, 0xBD09, 34, 44, 32, 34, 112, 97, 121, 34, 93]"
    by (simp add: keyword str_def json_escape_def)
  from structured verbatim number listed show ?thesis
    by simp
qed

section \<open>The result that cannot be serialized\<close>

text \<open>
  Claim C10. If the value passed to \<^verbatim>\<open>_set_to_cache\<close> is a mapping or sequence that
  holds a member JSON cannot serialize (such as the table \<^verbatim>\<open>scored_df\<close> of a real
  analysis result), the exception of the serialization is caught inside
  \<^verbatim>\<open>_set_to_cache\<close>, \<^verbatim>\<open>False\<close> is returned, nothing is written to the cache, and
  \<^verbatim>\<open>analysis_review\<close> still returns that result to the caller; so such results are
  silently never cached, and every later call for that identifier runs the pipeline again.

  Three facts, for a dictionary or list on which \<^verbatim>\<open>json.dumps(value, ensure_ascii=False)\<close>
  raises. \<^verbatim>\<open>_set_to_cache\<close> returns \<^verbatim>\<open>False\<close> and leaves the whole state as it is, so
  it calls no collaborator. A call of \<^verbatim>\<open>analysis_review\<close> that takes the miss path to
  such a result returns it, leaves the backend as the cache read left it and issues no
  \<^verbatim>\<open>setex\<close>. And on the adapter of the specification, whose reads leave the store as it
  is: if the cache read for the key is false in a store and the pipeline gives such a
  result, then a call from any state with that store returns the result, runs the pipeline
  (the record store is queried) and leaves the store as it was; so does, then, every call
  after it, as long as nothing else writes the entry.
\<close>

theorem unserializable_result_is_never_cached:
  assumes dl: "isinstance_dict_list result"
    and dumps: "json_dumps env result False = Inl e"
  shows "set_to_cache env key result ttl w2 = (False, w2)
     \<and> (get_cache_key name = Inr key \<and> get_from_cache env key w = (cached, w1)
          \<and> \<not> truthy cached \<and> perform_analysis env name w1 = (Inr result, w2)
        \<longrightarrow> analysis_review env name w = (Inr result, w2)
            \<and> redis w2 = redis w1
            \<and> filter is_setex (calls w2) = filter is_setex (calls w))
     \<and> (get_cache_key name = Inr key
          \<and> \<not> truthy (fst (get_from_cache (on_store env) key u))
          \<and> fst (perform_analysis (on_store env) name u) = Inr result
          \<and> redis u' = redis u
        \<longrightarrow> fst (analysis_review (on_store env) name u') = Inr result
            \<and> redis (snd (analysis_review (on_store env) name u')) = redis u
            \<and> (\<exists>evs evs'. calls (snd (analysis_review (on_store env) name u'))
                  = calls u' @ evs @ GetReviewsByCompany name # evs'))"
proof -
  have a: "set_to_cache env' key result t x = (False, x)"
    if "json_dumps env' = json_dumps env" for env' :: "'c collaborators" and t x
    using dl dumps that by (simp add: set_to_cache_dumps_fails)
  have b: "analysis_review env name w = (Inr result, w2)
            \<and> redis w2 = redis w1
            \<and> filter is_setex (calls w2) = filter is_setex (calls w)"
    if key: "get_cache_key name = Inr key" and read: "get_from_cache env key w = (cached, w1)"
      and falsy: "\<not> truthy cached" and run: "perform_analysis env name w1 = (Inr result, w2)"
  proof -
    have "analysis_review env name w = (Inr result, w2)"
      by (simp add: analysis_review_def key read falsy run a)
    moreover have "redis w2 = redis w1"
      using perform_analysis_redis [of env name w1] run by simp
    moreover have "filter is_setex (calls w2) = filter is_setex (calls w)"
      using perform_analysis_setex [of env name w1] get_from_cache_setex [of env key w] run read
      by simp
    ultimately show ?thesis by simp
  qed
  have c: "fst (analysis_review (on_store env) name u') = Inr result
            \<and> redis (snd (analysis_review (on_store env) name u')) = redis u
            \<and> (\<exists>evs evs'. calls (snd (analysis_review (on_store env) name u'))
                  = calls u' @ evs @ GetReviewsByCompany name # evs')"
    if key: "get_cache_key name = Inr key"
      and falsy: "\<not> truthy (fst (get_from_cache (on_store env) key u))"
      and run: "fst (perform_analysis (on_store env) name u) = Inr result"
      and same: "redis u' = redis u"
  proof -
    obtain cached u1 where read: "get_from_cache (on_store env) key u' = (cached, u1)"
      by (cases "get_from_cache (on_store env) key u'")
    have falsy': "\<not> truthy cached"
      using store_read_value [OF same, of env key] falsy read by simp
    have u1: "redis u1 = redis u"
      using store_read_redis [of env key u'] read same by simp
    obtain evs where evs: "calls u1 = calls u' @ evs"
      using store_read_calls [of env key u'] read by auto
    obtain r u2 where run': "perform_analysis (on_store env) name u1 = (r, u2)"
      by (cases "perform_analysis (on_store env) name u1")
    have r: "r = Inr result"
      using perform_analysis_result [of "on_store env" name u1 u] run run' by simp
    have u2: "redis u2 = redis u"
      using perform_analysis_redis [of "on_store env" name u1] run' u1 by simp
    obtain evs' where evs': "calls u2 = calls u1 @ GetReviewsByCompany name # evs'"
      using perform_analysis_calls [of "on_store env" name u1] run' by simp
    have "analysis_review (on_store env) name u' = (Inr result, u2)"
      by (simp add: analysis_review_def key read falsy' run' r a on_store_simps)
    then show ?thesis
      using u2 evs evs' by auto
  qed
  from a [of env] b c show ?thesis
    by blast
qed

text \<open>
  The example: the analysis of Acme gives a result that carries a pandas table, on which
  \<^verbatim>\<open>json.dumps\<close> raises \<^verbatim>\<open>TypeError\<close>. The first call on an empty store returns the
  result and leaves the store empty (\<open>pipeline_world\<close>); the second call returns it again,
  leaves the store as it was and queries the record store again.
\<close>

theorem unserializable_result_is_never_cached_witness:
  "set_to_cache (example_env fetch_ok table_result) acme_key table_result 3600 pipeline_world
     = (False, pipeline_world)
   \<and> analysis_review (example_env fetch_ok table_result) acme (world_with True [])
     = (Inr table_result, pipeline_world)
   \<and> fst (analysis_review (example_env fetch_ok table_result) acme pipeline_world) = Inr table_result
   \<and> redis (snd (analysis_review (example_env fetch_ok table_result) acme pipeline_world))
     = redis (world_with True [])
   \<and> (\<exists>evs evs'. calls (snd (analysis_review (example_env fetch_ok table_result) acme pipeline_world))
         = calls pipeline_world @ evs @ GetReviewsByCompany acme # evs')"
proof -
  let ?env = "example_env fetch_ok table_result"
  have dumps: "json_dumps ?env table_result False = Inl (OtherException ''TypeError'')"
    by (simp add: example_defs)
  have falsy: "\<not> truthy PNone"
    by simp
  have falsy': "\<not> truthy (fst (get_from_cache (on_store ?env) acme_key (world_with True [])))"
    unfolding on_store_example by (simp add: read_of_empty_store)
  have run: "fst (perform_analysis (on_store ?env) acme (world_with True [])) = Inr table_result"
    unfolding on_store_example by (simp add: service_defs example_defs)
  have same: "redis pipeline_world = redis (world_with True [])"
    by (simp add: pipeline_world_def world_with_def)
  note facts = unserializable_result_is_never_cached
    [OF example_result_kinds(2) dumps,
      of acme_key 3600 pipeline_world acme "world_with True []" PNone read_world
         "world_with True []" pipeline_world]
  from facts have a: "set_to_cache ?env acme_key table_result 3600 pipeline_world
      = (False, pipeline_world)"
    by (rule conjunct1)
  from facts get_cache_key_acme read_of_empty_store [of fetch_ok table_result] falsy
    pipeline_after_read [of table_result]
  have b: "analysis_review ?env acme (world_with True []) = (Inr table_result, pipeline_world)"
    by blast
  from facts get_cache_key_acme falsy' run same
  have "fst (analysis_review (on_store ?env) acme pipeline_world) = Inr table_result
      \<and> redis (snd (analysis_review (on_store ?env) acme pipeline_world)) = redis (world_with True [])
      \<and> (\<exists>evs evs'. calls (snd (analysis_review (on_store ?env) acme pipeline_world))
            = calls pipeline_world @ evs @ GetReviewsByCompany acme # evs')"
    by blast
  then have c: "fst (analysis_review ?env acme pipeline_world) = Inr table_result
      \<and> redis (snd (analysis_review ?env acme pipeline_world)) = redis (world_with True [])
      \<and> (\<exists>evs evs'. calls (snd (analysis_review ?env acme pipeline_world))
            = calls pipeline_world @ evs @ GetReviewsByCompany acme # evs')"
    by (simp only: on_store_example)
  from a b c show ?thesis
    by blast
qed

section \<open>Clearing the cache\<close>

text \<open>
  Claim C7. \<^verbatim>\<open>clear_analysis_cache\<close> with an identifier deletes only that identifier's
  derived key and returns 0 or 1; with no identifier it deletes every key that matches
  \<^verbatim>\<open>review_analysis:*\<close> and returns the number deleted (0 if none matches or the backend
  is unavailable); it never raises, and any internal error yields 0.

  Not with every identifier: the empty string is false for \<^verbatim>\<open>if company_name:\<close>
  (line 125), so with the identifier \<^verbatim>\<open>''\<close> the call takes the branch that deletes every
  key of the namespace. In a store that holds the entry of the empty name, the entry of
  Acme and a session key, it deletes both entries and returns 2.
\<close>

theorem clear_analysis_cache_of_empty_name:
  "get_cache_key [] = Inr empty_name_key
   \<and> clear_analysis_cache (example_env fetch_ok example_result) (Some [])
       (world_with True three_entries)
     = (2, \<lparr>redis = \<lparr>link_up = True, client = True, entries = [(session_key, str ''hello'', 60)]\<rparr>,
            calls = [RedisKeys (str ''review_analysis:*''), RedisDelete [acme_key, empty_name_key]]\<rparr>)"
  by (simp add: service_defs example_defs three_entries_def glob_review_pattern example_review_keys)

text \<open>
  Claim C7, amended. With a non-empty identifier whose key is derived,
  \<^verbatim>\<open>clear_analysis_cache\<close> makes one call, \<^verbatim>\<open>delete\<close> of that identifier's derived key
  alone, and returns the number it reports; with no identifier, or with the empty string,
  it lists the keys that match \<^verbatim>\<open>review_analysis:*\<close> and, if there are any, deletes
  exactly the listed keys in one call and returns the number reported, else 0. It returns 0
  and calls nothing when the adapter is not ready. It never raises: an exception of the
  key derivation, of \<^verbatim>\<open>keys\<close> or of \<^verbatim>\<open>delete\<close> yields 0. On the adapter of the
  specification, with no key stored twice: with a non-empty identifier the result is 1 if
  the derived key was stored and 0 if not, and the entries left are all but that key's;
  with no identifier or the empty string the result is the number of entries whose key
  starts with \<^verbatim>\<open>review_analysis:\<close>, and the entries left are the others.
\<close>

theorem clear_analysis_cache_cases:
  "(name \<noteq> [] \<and> get_cache_key name = Inr key \<and> redis_ready env w
      \<and> redis_delete env [key] (redis w) = (outcome, b)
    \<longrightarrow> clear_analysis_cache env (Some name) w
          = ((case outcome of Inl e \<Rightarrow> 0 | Inr n \<Rightarrow> n),
             \<lparr>redis = b, calls = calls w @ [RedisDelete [key]]\<rparr>))
   \<and> ((company_name = None \<or> company_name = Some []) \<and> redis_ready env w
      \<and> redis_keys env (str ''review_analysis:*'') (redis w) = (listed, bk)
    \<longrightarrow> clear_analysis_cache env company_name w
          = (case listed of
               Inr (k # ks) \<Rightarrow>
                 (case redis_delete env (k # ks) bk of
                    (outcome', b2) \<Rightarrow>
                      ((case outcome' of Inl e \<Rightarrow> 0 | Inr n \<Rightarrow> n),
                       \<lparr>redis = b2,
                         calls = calls w @ [RedisKeys (str ''review_analysis:*''), RedisDelete (k # ks)]\<rparr>))
             | _ \<Rightarrow> (0, \<lparr>redis = bk, calls = calls w @ [RedisKeys (str ''review_analysis:*'')]\<rparr>)))
   \<and> (\<not> redis_ready env w \<longrightarrow> clear_analysis_cache env any_name w = (0, w))
   \<and> (name \<noteq> [] \<and> get_cache_key name = Inl e
    \<longrightarrow> clear_analysis_cache env (Some name) w = (0, w))
   \<and> (name \<noteq> [] \<and> get_cache_key name = Inr key \<and> available (redis u)
      \<and> distinct (map fst (entries (redis u)))
    \<longrightarrow> fst (clear_analysis_cache (on_store env) (Some name) u)
          = (if key \<in> fst ` set (entries (redis u)) then 1 else 0)
        \<and> entries (redis (snd (clear_analysis_cache (on_store env) (Some name) u)))
          = filter (\<lambda>entry. fst entry \<noteq> key) (entries (redis u)))
   \<and> ((company_name = None \<or> company_name = Some []) \<and> available (redis u)
    \<longrightarrow> fst (clear_analysis_cache (on_store env) company_name u)
          = int (length (filter (\<lambda>entry. is_review_key (fst entry)) (entries (redis u))))
        \<and> entries (redis (snd (clear_analysis_cache (on_store env) company_name u)))
          = filter (\<lambda>entry. \<not> is_review_key (fst entry)) (entries (redis u)))"
proof -
  have one: "clear_analysis_cache env (Some name) w
          = ((case outcome of Inl e \<Rightarrow> 0 | Inr n \<Rightarrow> n),
             \<lparr>redis = b, calls = calls w @ [RedisDelete [key]]\<rparr>)"
    if "name \<noteq> []" "get_cache_key name = Inr key" "redis_ready env w"
      "redis_delete env [key] (redis w) = (outcome, b)"
    using that
    by (simp add: clear_analysis_cache_def clear_company_cache_def redis_client_delete_def
        split: sum.splits)
  have branch: "clear_analysis_cache env' company_name x = clear_all_caches env' x"
    if "company_name = None \<or> company_name = Some []" for env' :: "'c collaborators" and x
    using that by (auto simp: clear_analysis_cache_def)
  have all: "clear_analysis_cache env company_name w
          = (case listed of
               Inr (k # ks) \<Rightarrow>
                 (case redis_delete env (k # ks) bk of
                    (outcome', b2) \<Rightarrow>
                      ((case outcome' of Inl e \<Rightarrow> 0 | Inr n \<Rightarrow> n),
                       \<lparr>redis = b2,
                         calls = calls w @ [RedisKeys (str ''review_analysis:*''), RedisDelete (k # ks)]\<rparr>))
             | _ \<Rightarrow> (0, \<lparr>redis = bk, calls = calls w @ [RedisKeys (str ''review_analysis:*'')]\<rparr>))"
    if "company_name = None \<or> company_name = Some []" "redis_ready env w"
      "redis_keys env (str ''review_analysis:*'') (redis w) = (listed, bk)"
    using that(2,3)
    by (simp add: branch [OF that(1)] clear_all_caches_def redis_client_keys_def
        redis_client_delete_def split: sum.splits list.splits prod.splits)
  have down: "clear_analysis_cache env any_name w = (0, w)" if "\<not> redis_ready env w"
    using that by (rule clear_analysis_cache_not_ready)
  have raise: "clear_analysis_cache env (Some name) w = (0, w)"
    if "name \<noteq> []" "get_cache_key name = Inl e"
    using that by (simp add: clear_analysis_cache_def clear_company_cache_def)
  have one_store: "fst (clear_analysis_cache (on_store env) (Some name) u)
          = (if key \<in> fst ` set (entries (redis u)) then 1 else 0)
        \<and> entries (redis (snd (clear_analysis_cache (on_store env) (Some name) u)))
          = filter (\<lambda>entry. fst entry \<noteq> key) (entries (redis u))"
    if "name \<noteq> []" "get_cache_key name = Inr key" "available (redis u)"
      "distinct (map fst (entries (redis u)))"
  proof -
    have "clear_analysis_cache (on_store env) (Some name) u
        = (int (length (filter (\<lambda>entry. fst entry = key) (entries (redis u)))),
           \<lparr>redis = (redis u)\<lparr>entries := filter (\<lambda>entry. fst entry \<noteq> key) (entries (redis u))\<rparr>,
            calls = calls u @ [RedisDelete [key]]\<rparr>)"
      using that(1,2,3)
      by (simp add: clear_analysis_cache_def clear_company_cache_def store_ready on_store_simps
          redis_client_delete_def store_delete_def)
    then show ?thesis
      using count_of_key [OF that(4), of key] by simp
  qed
  have all_store: "fst (clear_analysis_cache (on_store env) company_name u)
          = int (length (filter (\<lambda>entry. is_review_key (fst entry)) (entries (redis u))))
        \<and> entries (redis (snd (clear_analysis_cache (on_store env) company_name u)))
          = filter (\<lambda>entry. \<not> is_review_key (fst entry)) (entries (redis u))"
    if none: "company_name = None \<or> company_name = Some []" and up: "available (redis u)"
  proof -
    let ?keys = "filter is_review_key (map fst (entries (redis u)))"
    let ?u1 = "\<lparr>redis = redis u, calls = calls u @ [RedisKeys (str ''review_analysis:*'')]\<rparr>"
    have ready: "redis_ready (on_store env) u"
      using up by (simp add: store_ready)
    have listed: "redis_client_keys (on_store env) (str ''review_analysis:*'') u = (Inr ?keys, ?u1)"
      using up
      by (simp add: redis_client_keys_def on_store_simps store_keys_def glob_review_pattern
          cong: filter_cong)
    show ?thesis
    proof (cases "?keys = []")
      case True
      then have no: "filter (\<lambda>entry. is_review_key (fst entry)) (entries (redis u)) = []"
        by (auto simp: filter_empty_conv)
      then have "filter (\<lambda>entry. \<not> is_review_key (fst entry)) (entries (redis u)) = entries (redis u)"
        by (auto simp: filter_empty_conv filter_id_conv)
      with True no ready show ?thesis
        by (simp add: branch [OF none] clear_all_caches_def listed)
    next
      case False
      have "redis_client_delete (on_store env) ?keys ?u1
          = (Inr (int (length (filter (\<lambda>entry. is_review_key (fst entry)) (entries (redis u))))),
             \<lparr>redis = (redis u)\<lparr>entries :=
                 filter (\<lambda>entry. \<not> is_review_key (fst entry)) (entries (redis u))\<rparr>,
              calls = calls ?u1 @ [RedisDelete ?keys]\<rparr>)"
        using store_delete_listed [OF up, of is_review_key]
        by (simp add: redis_client_delete_def on_store_simps)
      with False ready show ?thesis
        by (simp add: branch [OF none] clear_all_caches_def listed)
    qed
  qed
  from one all down raise one_store all_store show ?thesis
    by blast
qed

text \<open>
  The example: the store holds the entry of Acme, the entry of the empty name and a session
  key. Clearing Acme deletes its entry and returns 1; clearing with no identifier deletes
  the two entries of the namespace and returns 2; with the adapter not connected, and with
  an identifier that cannot be encoded, the result is 0 and the state is left as it is.
\<close>

theorem clear_analysis_cache_cases_witness:
  "clear_analysis_cache (example_env fetch_ok example_result) (Some acme) (world_with True three_entries)
     = (1, \<lparr>redis = \<lparr>link_up = True, client = True,
                     entries = [(empty_name_key, str ''{}'', 3600), (session_key, str ''hello'', 60)]\<rparr>,
            calls = [RedisDelete [acme_key]]\<rparr>)
   \<and> clear_analysis_cache (example_env fetch_ok example_result) None (world_with True three_entries)
     = (2, \<lparr>redis = \<lparr>link_up = True, client = True, entries = [(session_key, str ''hello'', 60)]\<rparr>,
            calls = [RedisKeys (str ''review_analysis:*''), RedisDelete [acme_key, empty_name_key]]\<rparr>)
   \<and> clear_analysis_cache (example_env fetch_ok example_result) None (world_with False three_entries)
     = (0, world_with False three_entries)
   \<and> clear_analysis_cache (example_env fetch_ok example_result) (Some lone_surrogate)
       (world_with True three_entries)
     = (0, world_with True three_entries)
   \<and> entries (redis (snd (clear_analysis_cache (example_env fetch_ok example_result) (Some acme)
         (world_with True three_entries))))
     = [(empty_name_key, str ''{}'', 3600), (session_key, str ''hello'', 60)]
   \<and> fst (clear_analysis_cache (example_env fetch_ok example_result) (Some [])
         (world_with True three_entries)) = 2"
proof -
  let ?env = "example_env fetch_ok example_result"
  let ?w = "world_with True three_entries"
  let ?down = "world_with False three_entries"
  let ?left = "\<lparr>link_up = True, client = True,
      entries = [(empty_name_key, str ''{}'', 3600), (session_key, str ''hello'', 60)]\<rparr>"
  have ready: "redis_ready ?env ?w"
    by (simp add: redis_ready_def example_env_def world_with_def)
  have up: "available (redis ?w)"
    by (simp add: available_def world_with_def)
  have not_ready: "\<not> redis_ready ?env ?down"
    by (simp add: redis_ready_def example_env_def world_with_def)
  have delete: "redis_delete ?env [acme_key] (redis ?w) = (Inr 1, ?left)"
    by (simp add: example_defs three_entries_def)
  have keys: "redis_keys ?env (str ''review_analysis:*'') (redis ?w)
      = (Inr [acme_key, empty_name_key], redis ?w)"
    by (simp add: example_defs three_entries_def glob_review_pattern example_review_keys)
  have delete_all: "redis_delete ?env [acme_key, empty_name_key] (redis ?w)
      = (Inr 2, \<lparr>link_up = True, client = True, entries = [(session_key, str ''hello'', 60)]\<rparr>)"
    by (simp add: example_defs three_entries_def)
  have no_key_twice: "distinct (map fst (entries (redis ?w)))"
    by (simp add: world_with_def three_entries_def example_keys_differ)
  have surrogate: "get_cache_key lone_surrogate = Inl UnicodeEncodeError"
    by (simp add: get_cache_key_def lone_surrogate_def utf8_def)
  have names: "acme \<noteq> []" "lone_surrogate \<noteq> []"
    by (simp_all add: example_result_kinds lone_surrogate_def)
  note at_acme = clear_analysis_cache_cases
    [of acme acme_key ?env ?w "Inr 1" ?left None "Inr [acme_key, empty_name_key]" "redis ?w"
        None UnicodeEncodeError ?w]
  note at_down = clear_analysis_cache_cases
    [of acme acme_key ?env ?down "Inr 1" ?left None "Inr [acme_key, empty_name_key]" "redis ?w"
        None UnicodeEncodeError ?w]
  note at_surrogate = clear_analysis_cache_cases
    [of lone_surrogate acme_key ?env ?w "Inr 1" ?left "Some []" "Inr [acme_key, empty_name_key]"
        "redis ?w" None UnicodeEncodeError ?w]
  from at_acme names ready get_cache_key_acme delete
  have one: "clear_analysis_cache ?env (Some acme) ?w
      = (1, \<lparr>redis = ?left, calls = calls ?w @ [RedisDelete [acme_key]]\<rparr>)"
    by simp
  from at_acme ready keys
  have all: "clear_analysis_cache ?env None ?w
      = (2, \<lparr>redis = \<lparr>link_up = True, client = True, entries = [(session_key, str ''hello'', 60)]\<rparr>,
             calls = calls ?w @ [RedisKeys (str ''review_analysis:*''),
                                 RedisDelete [acme_key, empty_name_key]]\<rparr>)"
    by (simp add: delete_all)
  from at_down not_ready
  have down: "clear_analysis_cache ?env None ?down = (0, ?down)"
    by simp
  from at_surrogate names surrogate
  have raised: "clear_analysis_cache ?env (Some lone_surrogate) ?w = (0, ?w)"
    by simp
  from at_acme names get_cache_key_acme up no_key_twice
  have left: "entries (redis (snd (clear_analysis_cache (on_store ?env) (Some acme) ?w)))
      = filter (\<lambda>entry. fst entry \<noteq> acme_key) (entries (redis ?w))"
    by simp
  from at_surrogate up
  have count: "fst (clear_analysis_cache (on_store ?env) (Some []) ?w)
      = int (length (filter (\<lambda>entry. is_review_key (fst entry)) (entries (redis ?w))))"
    by simp
  have calls: "calls ?w = []"
    by (simp add: world_with_def)
  have left': "filter (\<lambda>entry. fst entry \<noteq> acme_key) (entries (redis ?w))
      = [(empty_name_key, str ''{}'', 3600), (session_key, str ''hello'', 60)]"
    by (simp add: world_with_def three_entries_def example_keys_differ)
  have count': "int (length (filter (\<lambda>entry. is_review_key (fst entry)) (entries (redis ?w)))) = 2"
    by (simp add: world_with_def three_entries_def example_review_keys)
  from one all down raised left count show ?thesis
    by (simp only: on_store_example calls left' count' append_Nil simp_thms)
qed

end
